theory Spec2Isabelle
  imports Complex_Main "HOL-Library.Multiset" "HOL-Library.Log_Nat"
begin

section \<open>Data model (types/index.ts)\<close>

text \<open>
  Strings are \<open>string\<close>; JavaScript numbers that carry timestamps and counts are
  \<open>int\<close>. A score is a double: it is modelled as the rational it denotes (type
  \<open>rat\<close>; NaN and the infinities are outside the model), and the arithmetic the
  runner does on scores is double arithmetic, defined below. An optional field
  \<open>f?: T\<close> is a \<open>T option\<close>.
\<close>

record SessionInfo =
  si_id :: string
  si_version :: string
  si_title :: string
  si_created :: int
  si_updated :: int

datatype Role = User | Assistant

record Message =
  m_id :: string
  m_role :: Role
  m_sessionID :: string
  m_mode :: "string option"
  m_modelID :: "string option"
  m_providerID :: "string option"
  m_created :: int
  m_completed :: "int option"

datatype PartType = PText | PTool | PPatch | PReasoning | PStepStart | PStepFinish | PFile

record PartTime =
  pt_created :: int
  pt_completed :: "int option"

text \<open>The type-specific fields of a part that the evaluators read
  (\<open>tool\<close>, \<open>input.filePath\<close>, \<open>input.path\<close>, \<open>state.tool\<close>, \<open>state.input\<close>, \<open>text\<close>).\<close>

record ToolInput =
  in_filePath :: "string option"
  in_path :: "string option"

record ToolState =
  st_tool :: "string option"
  st_input :: "ToolInput option"

record Part =
  p_id :: string
  p_messageID :: string
  p_sessionID :: string
  p_type :: PartType
  p_time :: "PartTime option"
  p_tool :: "string option"
  p_input :: "ToolInput option"
  p_state :: "ToolState option"
  p_text :: "string option"

text \<open>\<open>MessageWithParts.parts\<close> is declared non-optional, but both the reader and the
  builder guard it with \<open>parts || []\<close>, so it is optional here.\<close>

record MessageWithParts =
  mwp_info :: Message
  mwp_parts :: "Part list option"

datatype EventType = UserMessage | AssistantMessage | ToolCall | Patch | Reasoning | TextEvent

text \<open>\<open>TimelineEvent.data\<close> is \<open>any\<close>: the builder stores either the message bundle
  \<open>{message, parts, text, tools}\<close> or the part itself; \<open>NoData\<close> is a null or missing value.\<close>

datatype EventData =
    MessageData Message "Part list" string "string list"
  | PartData Part
  | NoData

record TimelineEvent =
  timestamp :: int
  e_type :: EventType
  e_agent :: "string option"
  e_model :: "string option"
  e_messageId :: "string option"
  e_partId :: "string option"
  e_data :: EventData

datatype Severity = SevError | SevWarning | SevInfo

text \<open>The loosely typed \<open>evidence\<close> and \<open>data\<close> payloads, as the JSON values the
  evaluators build.\<close>

datatype Json =
    JNull
  | JBool bool
  | JNum int
  | JStr string
  | JArr "Json list"
  | JObj "(string \<times> Json) list"

record Violation =
  v_type :: string
  v_severity :: Severity
  v_message :: string
  v_timestamp :: int
  v_evidence :: Json

record Evidence =
  ev_type :: string
  ev_description :: string
  ev_data :: Json
  ev_timestamp :: "int option"

record Check =
  c_name :: string
  c_passed :: bool
  c_weight :: int
  c_evidence :: "Evidence list"

record EvaluationResult =
  r_evaluator :: string
  r_passed :: bool
  r_score :: rat
  r_violations :: "Violation list"
  r_evidence :: "Evidence list"
  r_metadata :: "(string \<times> Json) list"

section \<open>Timeline normalizer (timeline-builder.ts)\<close>

record ModelInfo =
  mi_modelID :: string
  mi_providerID :: string

text \<open>\<open>MessageParser\<close> (message-parser.ts) is not part of the sources at hand: the
  four methods the builder calls are parameters.\<close>

record MessageParser =
  getAgent :: "Message \<Rightarrow> string option"
  getModel :: "Message \<Rightarrow> ModelInfo option"
  extractTextFromParts :: "Part list \<Rightarrow> string"
  getToolsUsed :: "Part list \<Rightarrow> string list"

text \<open>\<open>SessionReader\<close> (session-reader.ts) reads from the SDK client and the disk; the
  two methods the core calls are functions of the session id here. Both catch every
  failure: \<open>getSessionInfo\<close> then returns null and \<open>getMessagesWithParts\<close> returns
  \<open>[]\<close>.\<close>

record SessionReader =
  getSessionInfo :: "string \<Rightarrow> SessionInfo option"
  getMessagesWithParts :: "string \<Rightarrow> MessageWithParts list"

record TimelineBuilder =
  reader :: SessionReader
  parser :: MessageParser

text \<open>\<open>s || undefined\<close> on an optional string: the empty string is falsy.\<close>

definition truthy_string :: "string option \<Rightarrow> string option" where
  "truthy_string s = (case s of None \<Rightarrow> None | Some x \<Rightarrow> if x = [] then None else Some x)"

text \<open>\<open>part.time?.created || message.time.created\<close>: a missing time and a time of
  \<open>0\<close> are both falsy.\<close>

definition partTimestamp :: "Part \<Rightarrow> Message \<Rightarrow> int" where
  "partTimestamp part message =
     (case p_time part of
        None \<Rightarrow> m_created message
      | Some t \<Rightarrow> if pt_created t = 0 then m_created message else pt_created t)"

definition createMessageEvent :: "MessageParser \<Rightarrow> Message \<Rightarrow> Part list \<Rightarrow> TimelineEvent" where
  "createMessageEvent ps message parts =
     \<lparr> timestamp = m_created message,
       e_type = (if m_role message = User then UserMessage else AssistantMessage),
       e_agent = truthy_string (getAgent ps message),
       e_model = map_option mi_modelID (getModel ps message),
       e_messageId = Some (m_id message),
       e_partId = None,
       e_data = MessageData message parts (extractTextFromParts ps parts) (getToolsUsed ps parts) \<rparr>"

definition partEventOfType :: "MessageParser \<Rightarrow> EventType \<Rightarrow> Part \<Rightarrow> Message \<Rightarrow> TimelineEvent" where
  "partEventOfType ps ty part message =
     \<lparr> timestamp = partTimestamp part message,
       e_type = ty,
       e_agent = truthy_string (getAgent ps message),
       e_model = map_option mi_modelID (getModel ps message),
       e_messageId = Some (m_id message),
       e_partId = Some (p_id part),
       e_data = PartData part \<rparr>"

definition createPartEvent :: "MessageParser \<Rightarrow> Part \<Rightarrow> Message \<Rightarrow> TimelineEvent option" where
  "createPartEvent ps part message =
     (case p_type part of
        PTool \<Rightarrow> Some (partEventOfType ps ToolCall part message)
      | PPatch \<Rightarrow> Some (partEventOfType ps Patch part message)
      | PReasoning \<Rightarrow> Some (partEventOfType ps Reasoning part message)
      | PText \<Rightarrow> Some (partEventOfType ps TextEvent part message)
      | _ \<Rightarrow> None)"

text \<open>The inner loop of \<open>buildTimeline\<close>: one push for each part with an event.\<close>

fun partEvents :: "MessageParser \<Rightarrow> Message \<Rightarrow> Part list \<Rightarrow> TimelineEvent list" where
  "partEvents ps message [] = []"
| "partEvents ps message (part # rest) =
     (case createPartEvent ps part message of
        None \<Rightarrow> partEvents ps message rest
      | Some ev \<Rightarrow> ev # partEvents ps message rest)"

definition partsOf :: "MessageWithParts \<Rightarrow> Part list" where
  "partsOf msgWithParts = (case mwp_parts msgWithParts of None \<Rightarrow> [] | Some ps \<Rightarrow> ps)"

text \<open>The outer loop: the message's event, then its parts' events.\<close>

fun collectEvents :: "MessageParser \<Rightarrow> MessageWithParts list \<Rightarrow> TimelineEvent list" where
  "collectEvents ps [] = []"
| "collectEvents ps (msgWithParts # rest) =
     (let message = mwp_info msgWithParts;
          parts = partsOf msgWithParts
      in createMessageEvent ps message parts # partEvents ps message parts
           @ collectEvents ps rest)"

text \<open>\<open>events.sort((a, b) => a.timestamp - b.timestamp)\<close>: \<open>Array.prototype.sort\<close> is a
  stable sort, so it returns the one stable ascending arrangement of the events, which
  is what the stable insertion sort \<open>sort_key\<close> computes.\<close>

definition buildTimeline :: "TimelineBuilder \<Rightarrow> string \<Rightarrow> TimelineEvent list" where
  "buildTimeline tb sessionId =
     sort_key timestamp
       (collectEvents (parser tb) (getMessagesWithParts (reader tb) sessionId))"

subsection \<open>A concrete transcript\<close>

definition ex_parser :: MessageParser where
  "ex_parser = \<lparr> getAgent = m_mode,
                 getModel = (\<lambda>m. case m_modelID m of None \<Rightarrow> None
                              | Some i \<Rightarrow> Some \<lparr> mi_modelID = i, mi_providerID = ''p'' \<rparr>),
                 extractTextFromParts = (\<lambda>ps. concat (map (\<lambda>p. case p_text p of None \<Rightarrow> [] | Some t \<Rightarrow> t) ps)),
                 getToolsUsed = (\<lambda>ps. List.map_filter p_tool ps) \<rparr>"

definition ex_message :: "string \<Rightarrow> Role \<Rightarrow> int \<Rightarrow> Message" where
  "ex_message i r t = \<lparr> m_id = i, m_role = r, m_sessionID = ''ses_1'', m_mode = Some ''openagent'',
                        m_modelID = None, m_providerID = None, m_created = t, m_completed = None \<rparr>"

definition ex_part :: "string \<Rightarrow> PartType \<Rightarrow> int option \<Rightarrow> Part" where
  "ex_part i ty t = \<lparr> p_id = i, p_messageID = ''msg'', p_sessionID = ''ses_1'', p_type = ty,
                      p_time = map_option (\<lambda>c. \<lparr> pt_created = c, pt_completed = None \<rparr>) t,
                      p_tool = (if ty = PTool then Some ''write'' else None),
                      p_input = None, p_state = None,
                      p_text = (if ty = PText then Some ''hello'' else None) \<rparr>"

text \<open>An assistant message created at 300 with five parts (a step marker, a text part
  without a time, a tool part timed 200, a file part, a reasoning part timed 300), after
  a user message created at 100 with one text part.\<close>

definition ex_transcript :: "MessageWithParts list" where
  "ex_transcript =
     [\<lparr> mwp_info = ex_message ''m1'' User 100,
        mwp_parts = Some [ex_part ''p1'' PText None] \<rparr>,
      \<lparr> mwp_info = ex_message ''m2'' Assistant 300,
        mwp_parts = Some [ex_part ''p2'' PStepStart (Some 250),
                          ex_part ''p3'' PText None,
                          ex_part ''p4'' PTool (Some 200),
                          ex_part ''p5'' PFile (Some 260),
                          ex_part ''p6'' PReasoning (Some 300)] \<rparr>]"

definition ex_session :: SessionInfo where
  "ex_session = \<lparr> si_id = ''ses_1'', si_version = ''1.0'', si_title = ''Test Session'',
                  si_created = 1000, si_updated = 2000 \<rparr>"

definition ex_reader :: SessionReader where
  "ex_reader =
     \<lparr> getSessionInfo = (\<lambda>sid. if sid = ''ses_1'' then Some ex_session else None),
       getMessagesWithParts = (\<lambda>sid. if sid = ''ses_1'' then ex_transcript else []) \<rparr>"

definition ex_builder :: TimelineBuilder where
  "ex_builder = \<lparr> reader = ex_reader, parser = ex_parser \<rparr>"

text \<open>A tool part whose creation time is present and is \<open>0\<close>, in a message created
  at 5.\<close>

definition ex_zero_part :: Part where
  "ex_zero_part = ex_part ''p0'' PTool (Some 0)"

definition ex_zero_message :: Message where
  "ex_zero_message = ex_message ''m0'' Assistant 5"

section \<open>Double arithmetic\<close>

text \<open>JavaScript's \<open>+\<close> and \<open>/\<close> on numbers are the IEEE 754 binary64 operations: the
  exact result, rounded to the nearest double, a tie going to the even significand.
  \<open>binade x\<close> is \<open>\<lfloor>log\<^sub>2 \<bar>x\<bar>\<rfloor>\<close>, computed from the bit lengths of the numerator and the
  denominator; a double in that binade is a multiple of \<open>2 powi (binade x - 52)\<close>
  (53 significant bits). Overflow and subnormal numbers are outside the model: it is
  right for magnitudes from \<open>2 powi (-1022)\<close> up to \<open>2 powi 1024\<close>, and for \<open>0\<close>.\<close>

definition roundHalfEven :: "rat \<Rightarrow> int" where
  "roundHalfEven y =
     (let f = \<lfloor>y\<rfloor>; d = y - of_int f
      in if d < 1 / 2 then f else if 1 / 2 < d then f + 1 else if even f then f else f + 1)"

definition binade :: "rat \<Rightarrow> int" where
  "binade x =
     (case quotient_of \<bar>x\<bar> of (p, q) \<Rightarrow>
        (let d = int (floorlog 2 (nat p)) - int (floorlog 2 (nat q))
         in if 2 powi d \<le> \<bar>x\<bar> then d else d - 1))"

definition fl :: "rat \<Rightarrow> rat" where
  "fl x =
     (if x = 0 then 0
      else (let e = binade x - 52
            in of_int (roundHalfEven (x / 2 powi e)) * 2 powi e))"

definition fadd :: "rat \<Rightarrow> rat \<Rightarrow> rat" where
  "fadd x y = fl (x + y)"

definition fdiv :: "rat \<Rightarrow> rat \<Rightarrow> rat" where
  "fdiv x y = fl (x / y)"

section \<open>Evaluation runner (evaluator-runner.ts)\<close>

datatype RunError =
    SessionNotFound string
  | NoEvaluators
  | EvaluatorFailed string

text \<open>An evaluator as the runner sees it: a name and \<open>evaluate\<close>, whose rejection is
  the \<open>Inl\<close> branch. What \<open>evaluate\<close> reads besides its two arguments (the clock) is
  closed over by the function stored here.\<close>

record IEvaluator =
  ie_name :: string
  ie_evaluate :: "TimelineEvent list \<Rightarrow> SessionInfo \<Rightarrow> RunError + EvaluationResult"

text \<open>The runner's fields. \<open>registry\<close> is the object keyed by evaluator name, kept as an
  association list in insertion order (evaluator names are taken not to be array indices
  or names of inherited object properties, for which a JavaScript object behaves
  otherwise).\<close>

record Runner =
  registry :: "(string \<times> IEvaluator) list"
  sessionReader :: SessionReader
  timelineBuilder :: TimelineBuilder

record BySeverity =
  bs_error :: nat
  bs_warning :: nat
  bs_info :: nat

record AggregatedResult =
  a_sessionId :: string
  a_sessionInfo :: SessionInfo
  a_timestamp :: int
  evaluatorResults :: "EvaluationResult list"
  overallPassed :: bool
  overallScore :: int
  totalViolations :: nat
  violationsBySeverity :: BySeverity
  allViolations :: "Violation list"
  allEvidence :: "Evidence list"

text \<open>\<open>this.registry[evaluator.name] = evaluator\<close>: an existing key keeps its place.\<close>

fun assign :: "(string \<times> 'a) list \<Rightarrow> string \<Rightarrow> 'a \<Rightarrow> (string \<times> 'a) list" where
  "assign [] k v = [(k, v)]"
| "assign ((k', v') # rest) k v =
     (if k' = k then (k, v) # rest else (k', v') # assign rest k v)"

definition register :: "Runner \<Rightarrow> IEvaluator \<Rightarrow> Runner" where
  "register r ev = r\<lparr>registry := assign (registry r) (ie_name ev) ev\<rparr>"

definition unregister :: "Runner \<Rightarrow> string \<Rightarrow> Runner" where
  "unregister r evaluatorName =
     r\<lparr>registry := filter (\<lambda>(k, v). k \<noteq> evaluatorName) (registry r)\<rparr>"

definition getEvaluator :: "Runner \<Rightarrow> string \<Rightarrow> IEvaluator option" where
  "getEvaluator r evaluatorName = map_of (registry r) evaluatorName"

definition getEvaluators :: "Runner \<Rightarrow> IEvaluator list" where
  "getEvaluators r = map snd (registry r)"

text \<open>\<open>Math.round\<close> is exact on a double: it gives the nearest integer, a half going
  towards \<open>+\<infinity>\<close>, which is HOL's \<open>round x = \<lfloor>x + 1/2\<rfloor>\<close>.\<close>

definition Math_round :: "rat \<Rightarrow> int" where
  "Math_round x = round x"

text \<open>\<open>aggregateResults\<close>; \<open>now\<close> is the value of \<open>Date.now()\<close>. The two
  \<open>forEach\<close>/\<open>push\<close> loops and the \<open>reduce\<close> are left folds. The \<open>reduce\<close> adds
  the scores as doubles, from \<open>0\<close>, and the sum is divided as a double by the number of
  results (an array length, below \<open>2^32\<close>, is a double as it is).\<close>

definition aggregateResults ::
  "int \<Rightarrow> string \<Rightarrow> SessionInfo \<Rightarrow> EvaluationResult list \<Rightarrow> AggregatedResult" where
  "aggregateResults now sessionId sessionInfo results =
     (let allV = foldl (\<lambda>acc res. acc @ r_violations res) [] results;
          bySev = \<lparr> bs_error = length (filter (\<lambda>v. v_severity v = SevError) allV),
                    bs_warning = length (filter (\<lambda>v. v_severity v = SevWarning) allV),
                    bs_info = length (filter (\<lambda>v. v_severity v = SevInfo) allV) \<rparr>;
          allE = foldl (\<lambda>acc res. acc @ r_evidence res) [] results;
          totalWeight = length results;
          weightedScore = foldl (\<lambda>sum res. fadd sum (r_score res)) 0 results;
          score = (if totalWeight > 0
                   then Math_round (fdiv weightedScore (of_nat totalWeight)) else 100);
          passed = list_all r_passed results
      in \<lparr> a_sessionId = sessionId,
           a_sessionInfo = sessionInfo,
           a_timestamp = now,
           evaluatorResults = results,
           overallPassed = passed,
           overallScore = score,
           totalViolations = length allV,
           violationsBySeverity = bySev,
           allViolations = allV,
           allEvidence = allE \<rparr>)"

text \<open>The \<open>for\<close> loop over the evaluators to run: the first rejection ends the run.\<close>

fun runEach ::
  "IEvaluator list \<Rightarrow> TimelineEvent list \<Rightarrow> SessionInfo \<Rightarrow> RunError + EvaluationResult list" where
  "runEach [] timeline sessionInfo = Inr []"
| "runEach (ev # rest) timeline sessionInfo =
     (case ie_evaluate ev timeline sessionInfo of
        Inl e \<Rightarrow> Inl e
      | Inr res \<Rightarrow>
          (case runEach rest timeline sessionInfo of
             Inl e \<Rightarrow> Inl e
           | Inr others \<Rightarrow> Inr (res # others)))"

text \<open>\<open>evaluatorNames.map(name => this.registry[name]).filter(Boolean)\<close>.\<close>

definition selectEvaluators :: "Runner \<Rightarrow> string list option \<Rightarrow> IEvaluator list" where
  "selectEvaluators r evaluatorNames =
     (case evaluatorNames of
        Some names \<Rightarrow> List.map_filter (\<lambda>n. map_of (registry r) n) names
      | None \<Rightarrow> getEvaluators r)"

definition runEvaluators ::
  "Runner \<Rightarrow> int \<Rightarrow> string \<Rightarrow> string list option \<Rightarrow> RunError + AggregatedResult" where
  "runEvaluators r now sessionId evaluatorNames =
     (case getSessionInfo (sessionReader r) sessionId of
        None \<Rightarrow> Inl (SessionNotFound sessionId)
      | Some sessionInfo \<Rightarrow>
          (let timeline = buildTimeline (timelineBuilder r) sessionId;
               evaluatorsToRun = selectEvaluators r evaluatorNames
           in if length evaluatorsToRun = 0 then Inl NoEvaluators
              else (case runEach evaluatorsToRun timeline sessionInfo of
                      Inl e \<Rightarrow> Inl e
                    | Inr results \<Rightarrow>
                        Inr (aggregateResults now sessionId sessionInfo results))))"

definition runAll :: "Runner \<Rightarrow> int \<Rightarrow> string \<Rightarrow> RunError + AggregatedResult" where
  "runAll r now sessionId = runEvaluators r now sessionId None"

subsection \<open>A concrete runner\<close>

definition ex_violation :: "string \<Rightarrow> Severity \<Rightarrow> Violation" where
  "ex_violation t s = \<lparr> v_type = t, v_severity = s, v_message = ''m'',
                        v_timestamp = 1500, v_evidence = JNull \<rparr>"

definition ex_result1 :: EvaluationResult where
  "ex_result1 = \<lparr> r_evaluator = ''approval-gate'', r_passed = True, r_score = 100,
                  r_violations = [ex_violation ''slow'' SevWarning], r_evidence = [],
                  r_metadata = [] \<rparr>"

definition ex_result2 :: EvaluationResult where
  "ex_result2 = \<lparr> r_evaluator = ''tool-usage'', r_passed = False, r_score = 75,
                  r_violations = [ex_violation ''bash-antipattern'' SevError,
                                  ex_violation ''note'' SevInfo,
                                  ex_violation ''bash-antipattern'' SevError],
                  r_evidence = [], r_metadata = [] \<rparr>"

definition ex_runner :: Runner where
  "ex_runner =
     \<lparr> registry = [(''approval-gate'', \<lparr> ie_name = ''approval-gate'',
                                          ie_evaluate = (\<lambda>t s. Inr ex_result1) \<rparr>),
                    (''tool-usage'', \<lparr> ie_name = ''tool-usage'',
                                       ie_evaluate = (\<lambda>t s. Inr ex_result2) \<rparr>)],
       sessionReader = ex_reader,
       timelineBuilder = ex_builder \<rparr>"

text \<open>Two evaluators whose scores are the doubles \<open>3.3333333333333335\<close> and
  \<open>41.666666666666664\<close>.\<close>

definition ex_result3 :: EvaluationResult where
  "ex_result3 = \<lparr> r_evaluator = ''approval-gate'', r_passed = False,
                  r_score = 7505999378950827 / 2 ^ 51,
                  r_violations = [], r_evidence = [], r_metadata = [] \<rparr>"

definition ex_result4 :: EvaluationResult where
  "ex_result4 = \<lparr> r_evaluator = ''tool-usage'', r_passed = False,
                  r_score = 5864062014805333 / 2 ^ 47,
                  r_violations = [], r_evidence = [], r_metadata = [] \<rparr>"

definition ex_double_runner :: Runner where
  "ex_double_runner =
     \<lparr> registry = [(''approval-gate'', \<lparr> ie_name = ''approval-gate'',
                                          ie_evaluate = (\<lambda>t s. Inr ex_result3) \<rparr>),
                    (''tool-usage'', \<lparr> ie_name = ''tool-usage'',
                                       ie_evaluate = (\<lambda>t s. Inr ex_result4) \<rparr>)],
       sessionReader = ex_reader,
       timelineBuilder = ex_builder \<rparr>"

definition ex_aggregated :: AggregatedResult where
  "ex_aggregated = aggregateResults 5000 ''ses_1'' ex_session [ex_result1, ex_result2]"

definition ex_double_aggregated :: AggregatedResult where
  "ex_double_aggregated = aggregateResults 5000 ''ses_1'' ex_session [ex_result3, ex_result4]"

section \<open>Regular expressions of the classifier and the evaluators\<close>

text \<open>The patterns of the sources use literals, alternation, \<open>?\<close>, \<open>\s+\<close>, \<open>.*\<close>,
  \<open>\b\<close> and \<open>$\<close>, all with the \<open>i\<close> flag. A match state is the character before
  the current position (none at the start) and the rest of the input; \<open>rx_step\<close> lists
  the states a pattern can end in. Characters are code units below 256.\<close>

definition isWordChar :: "char \<Rightarrow> bool" where
  "isWordChar c =
     (let n = (of_char c :: nat)
      in (97 \<le> n \<and> n \<le> 122) \<or> (65 \<le> n \<and> n \<le> 90) \<or> (48 \<le> n \<and> n \<le> 57) \<or> n = 95)"

definition isSpace :: "char \<Rightarrow> bool" where
  "isSpace c = (let n = (of_char c :: nat) in n = 32 \<or> (9 \<le> n \<and> n \<le> 13) \<or> n = 160)"

definition isLineTerminator :: "char \<Rightarrow> bool" where
  "isLineTerminator c = (let n = (of_char c :: nat) in n = 10 \<or> n = 13)"

definition lowerChar :: "char \<Rightarrow> char" where
  "lowerChar c =
     (let n = (of_char c :: nat) in if 65 \<le> n \<and> n \<le> 90 then char_of (n + 32) else c)"

definition toLowerCase :: "string \<Rightarrow> string" where
  "toLowerCase s = map lowerChar s"

datatype rx =
    Lits "string list"
  | Seq rx rx
  | Alt rx rx
  | Opt rx
  | Spaces1
  | AnyStar
  | WordB
  | EndA

type_synonym rx_state = "char option \<times> string"

definition lit_step :: "string \<Rightarrow> rx_state \<Rightarrow> rx_state list" where
  "lit_step w st =
     (case st of (prev, s) \<Rightarrow>
        if toLowerCase (take (length w) s) = toLowerCase w \<and> length w \<le> length s
        then [(if w = [] then prev else Some (s ! (length w - 1)), drop (length w) s)]
        else [])"

fun spaces_step :: "string \<Rightarrow> rx_state list" where
  "spaces_step [] = []"
| "spaces_step (c # cs) = (if isSpace c then (Some c, cs) # spaces_step cs else [])"

fun any_step :: "char option \<Rightarrow> string \<Rightarrow> rx_state list" where
  "any_step prev [] = [(prev, [])]"
| "any_step prev (c # cs) =
     (prev, c # cs) # (if isLineTerminator c then [] else any_step (Some c) cs)"

definition atWordBoundary :: "rx_state \<Rightarrow> bool" where
  "atWordBoundary st =
     (case st of (prev, s) \<Rightarrow>
        (case prev of None \<Rightarrow> False | Some c \<Rightarrow> isWordChar c)
          \<noteq> (case s of [] \<Rightarrow> False | c # cs \<Rightarrow> isWordChar c))"

fun rx_step :: "rx \<Rightarrow> rx_state \<Rightarrow> rx_state list" where
  "rx_step (Lits ws) st = concat (map (\<lambda>w. lit_step w st) ws)"
| "rx_step (Seq a b) st = concat (map (rx_step b) (rx_step a st))"
| "rx_step (Alt a b) st = rx_step a st @ rx_step b st"
| "rx_step (Opt a) st = rx_step a st @ [st]"
| "rx_step Spaces1 st = spaces_step (snd st)"
| "rx_step AnyStar st = any_step (fst st) (snd st)"
| "rx_step WordB st = (if atWordBoundary st then [st] else [])"
| "rx_step EndA st = (if snd st = [] then [st] else [])"

text \<open>\<open>pattern.test(s)\<close>: a match may start at any position.\<close>

fun rx_from :: "rx \<Rightarrow> char option \<Rightarrow> string \<Rightarrow> bool" where
  "rx_from r prev [] = (rx_step r (prev, []) \<noteq> [])"
| "rx_from r prev (c # cs) = (rx_step r (prev, c # cs) \<noteq> [] \<or> rx_from r (Some c) cs)"

definition rx_test :: "rx \<Rightarrow> string \<Rightarrow> bool" where
  "rx_test r s = rx_from r None s"

text \<open>\<open>/\b(w1|w2|...)\b/i\<close>.\<close>

definition wordOf :: "string list \<Rightarrow> rx" where
  "wordOf ws = Seq WordB (Seq (Lits ws) WordB)"

section \<open>Task classifier (task-type-detector.ts)\<close>

datatype TaskType =
    Conversational | ReadOnly | BashOnly | Delegation | Code | Docs | Tests | Review
  | CreateNewFile | ModifyExistingFile | DeleteFile | Unknown

text \<open>\<open>userMessage: string | any\<close>: a string, or an object read through \<open>text\<close> and
  \<open>content\<close>, or null.\<close>

datatype UserMessageArg =
    UMString string
  | UMObject "string option" "string option"
  | UMNull

definition messageTextOf :: "UserMessageArg \<Rightarrow> string" where
  "messageTextOf userMessage =
     (case userMessage of
        UMString s \<Rightarrow> s
      | UMObject text content \<Rightarrow>
          (case truthy_string text of
             Some t \<Rightarrow> t
           | None \<Rightarrow> (case truthy_string content of Some c \<Rightarrow> c | None \<Rightarrow> []))
      | UMNull \<Rightarrow> [])"

text \<open>\<open>data?.tool\<close>, \<open>data?.state?.tool\<close>, \<open>data?.text\<close> on an event's data.\<close>

definition data_tool :: "EventData \<Rightarrow> string option" where
  "data_tool d = (case d of PartData p \<Rightarrow> p_tool p | _ \<Rightarrow> None)"

definition data_state_tool :: "EventData \<Rightarrow> string option" where
  "data_state_tool d =
     (case d of
        PartData p \<Rightarrow> (case p_state p of None \<Rightarrow> None | Some st \<Rightarrow> st_tool st)
      | _ \<Rightarrow> None)"

definition data_text :: "EventData \<Rightarrow> string option" where
  "data_text d =
     (case d of
        MessageData m ps text tools \<Rightarrow> Some text
      | PartData p \<Rightarrow> p_text p
      | NoData \<Rightarrow> None)"

text \<open>\<open>timeline.filter(e => e.type === 'tool_call').map(t => t.data?.tool).filter(Boolean)\<close>.\<close>

definition toolsOf :: "TimelineEvent list \<Rightarrow> string list" where
  "toolsOf timeline =
     List.map_filter (\<lambda>t. truthy_string (data_tool (e_data t)))
       (filter (\<lambda>e. e_type e = ToolCall) timeline)"

definition readTools :: "string list" where
  "readTools = [''read'', ''glob'', ''grep'', ''list'']"

definition executionTools :: "string list" where
  "executionTools = [''write'', ''edit'', ''bash'', ''task'']"

definition hasOnlyReadTools :: "string list \<Rightarrow> bool" where
  "hasOnlyReadTools tools =
     (length tools > 0 \<and> list_all (\<lambda>t. t \<in> set readTools) tools
        \<and> \<not> list_ex (\<lambda>t. t \<in> set executionTools) tools)"

definition hasBashOnly :: "string list \<Rightarrow> bool" where
  "hasBashOnly tools =
     (''bash'' \<in> set tools \<and> ''write'' \<notin> set tools \<and> ''edit'' \<notin> set tools)"

text \<open>The patterns, in the order of the source.\<close>

definition testsPattern :: rx where
  "testsPattern =
     Seq WordB (Seq (Lits [''write'', ''create'', ''add'', ''implement'', ''generate''])
       (Seq Spaces1
         (Seq (Opt (Seq (Lits [''a'', ''an'', ''some'', ''new'']) Spaces1))
           (Seq (Seq (Lits [''test'', ''spec'', ''unit test'', ''integration test''])
                     (Opt (Lits [''s''])))
                WordB))))"

definition testFrameworkPattern :: rx where
  "testFrameworkPattern = wordOf [''jest'', ''vitest'', ''mocha'', ''pytest'', ''unittest'']"

definition docsPattern :: rx where
  "docsPattern =
     wordOf [''document'', ''documentation'', ''readme'', ''docs'', ''jsdoc'', ''tsdoc'',
             ''docstring'']"

definition reviewPattern :: rx where
  "reviewPattern = wordOf [''review'', ''audit'', ''check'', ''analyze'', ''inspect'']"

definition codeNounPattern :: rx where
  "codeNounPattern =
     wordOf [''function'', ''class'', ''component'', ''method'', ''module'', ''interface'',
             ''type'', ''enum'']"

definition createKeywords :: rx where
  "createKeywords = wordOf [''create'', ''new'', ''add'', ''make'', ''generate'', ''write'']"

definition modifyKeywords :: rx where
  "modifyKeywords =
     wordOf [''modify'', ''update'', ''change'', ''edit'', ''fix'', ''existing'', ''current'']"

definition fileKeywords :: rx where
  "fileKeywords = wordOf [''file'', ''directory'', ''folder'']"

definition genericCodePattern :: rx where
  "genericCodePattern =
     wordOf [''implement'', ''build'', ''develop'', ''code'', ''refactor'', ''fix'']"

definition deletePattern :: rx where
  "deletePattern = wordOf [''delete'', ''remove'', ''rm'']"

text \<open>\<open>detectTaskType\<close>. The \<open>DEBUG_TASK_TYPE\<close> logging is left out: it prints and
  changes nothing.\<close>

definition detectTaskType :: "UserMessageArg \<Rightarrow> TimelineEvent list \<Rightarrow> TaskType" where
  "detectTaskType userMessage timeline =
     (let msg = toLowerCase (messageTextOf userMessage);
          tools = toolsOf timeline
      in if ''task'' \<in> set tools then Delegation
         else if hasOnlyReadTools tools then ReadOnly
         else if hasBashOnly tools \<and> length tools > 0 then BashOnly
         else if rx_test testsPattern msg \<or> rx_test testFrameworkPattern msg then Tests
         else if rx_test docsPattern msg then Docs
         else if rx_test reviewPattern msg then Review
         else if rx_test codeNounPattern msg then Code
         else if rx_test createKeywords msg \<and> \<not> rx_test modifyKeywords msg
                   \<and> rx_test fileKeywords msg \<and> ''write'' \<in> set tools
              then CreateNewFile
         else if rx_test genericCodePattern msg then Code
         else if rx_test modifyKeywords msg \<and> (''write'' \<in> set tools \<or> ''edit'' \<in> set tools)
              then ModifyExistingFile
         else if rx_test deletePattern msg then DeleteFile
         else if length tools = 0 then Conversational
         else Unknown)"

text \<open>The same conditions as a list of rules, in the order of the \<open>if\<close>s: each rule is a
  test on the lower-cased message and the tool names, and the label it returns.\<close>

definition taskRules :: "((string \<Rightarrow> string list \<Rightarrow> bool) \<times> TaskType) list" where
  "taskRules =
     [(\<lambda>msg tools. ''task'' \<in> set tools, Delegation),
      (\<lambda>msg tools. hasOnlyReadTools tools, ReadOnly),
      (\<lambda>msg tools. hasBashOnly tools \<and> length tools > 0, BashOnly),
      (\<lambda>msg tools. rx_test testsPattern msg \<or> rx_test testFrameworkPattern msg, Tests),
      (\<lambda>msg tools. rx_test docsPattern msg, Docs),
      (\<lambda>msg tools. rx_test reviewPattern msg, Review),
      (\<lambda>msg tools. rx_test codeNounPattern msg, Code),
      (\<lambda>msg tools. rx_test createKeywords msg \<and> \<not> rx_test modifyKeywords msg
                       \<and> rx_test fileKeywords msg \<and> ''write'' \<in> set tools, CreateNewFile),
      (\<lambda>msg tools. rx_test genericCodePattern msg, Code),
      (\<lambda>msg tools. rx_test modifyKeywords msg
                       \<and> (''write'' \<in> set tools \<or> ''edit'' \<in> set tools), ModifyExistingFile),
      (\<lambda>msg tools. rx_test deletePattern msg, DeleteFile),
      (\<lambda>msg tools. length tools = 0, Conversational)]"

fun firstMatch ::
  "((string \<Rightarrow> string list \<Rightarrow> bool) \<times> TaskType) list \<Rightarrow> string \<Rightarrow> string list \<Rightarrow> TaskType" where
  "firstMatch [] msg tools = Unknown"
| "firstMatch ((test, label) # rules) msg tools =
     (if test msg tools then label else firstMatch rules msg tools)"

subsection \<open>Applicability matrix\<close>

record Applicability =
  applicable :: bool
  reason :: "string option"

definition yes :: Applicability where
  "yes = \<lparr> applicable = True, reason = None \<rparr>"

definition no :: "string \<Rightarrow> Applicability" where
  "no why = \<lparr> applicable = False, reason = Some why \<rparr>"

type_synonym ApplicabilityMatrix = "(string \<times> (TaskType \<times> Applicability) list) list"

definition applicabilityMatrix :: ApplicabilityMatrix where
  "applicabilityMatrix =
     [(''approval-gate'',
        [(CreateNewFile, yes), (ModifyExistingFile, yes), (DeleteFile, yes),
         (ReadOnly, no ''Read-only operations do not require approval''),
         (BashOnly, yes), (Delegation, yes),
         (Conversational, no ''Conversational sessions do not require approval''),
         (Code, yes), (Docs, yes), (Tests, yes), (Review, yes), (Unknown, yes)]),
      (''context-loading'',
        [(CreateNewFile, no ''Simple file creation does not require context''),
         (ModifyExistingFile, yes),
         (DeleteFile, no ''File deletion does not require context''),
         (ReadOnly, no ''Read-only operations do not require context''),
         (BashOnly, no ''Bash-only operations do not require context''),
         (Delegation, yes),
         (Conversational, no ''Conversational sessions do not require context''),
         (Code, yes), (Docs, yes), (Tests, yes), (Review, yes), (Unknown, yes)]),
      (''execution-balance'',
        [(CreateNewFile, no ''Creating new file - nothing to read''),
         (ModifyExistingFile, yes),
         (DeleteFile, no ''File deletion does not require prior read''),
         (ReadOnly, no ''No execution tools used''),
         (BashOnly, no ''Bash-only operations do not require read-before-execute''),
         (Delegation, no ''Delegation tasks have different execution patterns''),
         (Conversational, no ''No execution tools used''),
         (Code, yes), (Docs, yes), (Tests, yes), (Review, yes), (Unknown, yes)]),
      (''tool-usage'',
        [(CreateNewFile, yes), (ModifyExistingFile, yes), (DeleteFile, yes),
         (ReadOnly, yes), (BashOnly, yes), (Delegation, yes),
         (Conversational, no ''No tools used''),
         (Code, yes), (Docs, yes), (Tests, yes), (Review, yes), (Unknown, yes)]),
      (''delegation'',
        [(CreateNewFile, no ''Simple task - no delegation needed''),
         (ModifyExistingFile, no ''Simple task - no delegation needed''),
         (DeleteFile, no ''Simple task - no delegation needed''),
         (ReadOnly, no ''Simple task - no delegation needed''),
         (BashOnly, no ''Simple task - no delegation needed''),
         (Delegation, yes),
         (Conversational, no ''No delegation in conversational sessions''),
         (Code, no ''Simple task - no delegation needed''),
         (Docs, no ''Simple task - no delegation needed''),
         (Tests, no ''Simple task - no delegation needed''),
         (Review, yes), (Unknown, yes)]),
      (''stop-on-failure'',
        [(CreateNewFile, yes), (ModifyExistingFile, yes), (DeleteFile, yes),
         (ReadOnly, yes), (BashOnly, yes), (Delegation, yes),
         (Conversational, no ''No execution in conversational sessions''),
         (Code, yes), (Docs, yes), (Tests, yes), (Review, yes), (Unknown, yes)]),
      (''behavior'',
        [(CreateNewFile, yes), (ModifyExistingFile, yes), (DeleteFile, yes),
         (ReadOnly, yes), (BashOnly, yes), (Delegation, yes), (Conversational, yes),
         (Code, yes), (Docs, yes), (Tests, yes), (Review, yes), (Unknown, yes)])]"

text \<open>Lines 244 to 250, for any table: a missing row and a missing entry of a row both
  give \<open>{ applicable: true }\<close>.\<close>

definition lookupApplicability ::
  "ApplicabilityMatrix \<Rightarrow> string \<Rightarrow> TaskType \<Rightarrow> Applicability" where
  "lookupApplicability matrix evaluatorName taskType =
     (case map_of matrix evaluatorName of
        None \<Rightarrow> \<lparr> applicable = True, reason = None \<rparr>
      | Some evaluatorMatrix \<Rightarrow>
          (case map_of evaluatorMatrix taskType of
             None \<Rightarrow> \<lparr> applicable = True, reason = None \<rparr>
           | Some entry \<Rightarrow> entry))"

definition getEvaluatorApplicability :: "string \<Rightarrow> TaskType \<Rightarrow> Applicability" where
  "getEvaluatorApplicability evaluatorName taskType =
     lookupApplicability applicabilityMatrix evaluatorName taskType"

subsection \<open>Concrete sessions for the classifier\<close>

definition ex_tool_event :: "string \<Rightarrow> int \<Rightarrow> TimelineEvent" where
  "ex_tool_event tool t =
     \<lparr> timestamp = t, e_type = ToolCall, e_agent = None, e_model = None,
       e_messageId = Some ''m2'', e_partId = Some ''p'',
       e_data = PartData ((ex_part ''p'' PTool (Some t))\<lparr> p_tool := Some tool \<rparr>) \<rparr>"

definition ex_text_event :: "EventType \<Rightarrow> string \<Rightarrow> int \<Rightarrow> TimelineEvent" where
  "ex_text_event ty text t =
     \<lparr> timestamp = t, e_type = ty, e_agent = None, e_model = None,
       e_messageId = Some ''m'', e_partId = None,
       e_data = MessageData (ex_message ''m'' (if ty = UserMessage then User else Assistant) t)
                  [] text [] \<rparr>"

definition ex_small_matrix :: ApplicabilityMatrix where
  "ex_small_matrix =
     [(''approval-gate'', [(ReadOnly, no ''Read-only operations do not require approval'')])]"

section \<open>Declared-behavior evaluator (behavior-evaluator.ts)\<close>

text \<open>Modelled from the spec: the type \<open>BehaviorExpectation\<close>, whose declaration
  (sdk/test-case-schema.ts) is missing. It is the declarative rule input
  \<open>{mustUseTools?, mustNotUseTools?, mustUseAnyOf?, minToolCalls?, maxToolCalls?,
  requiresApproval?, requiresContext?, shouldDelegate?}\<close>, with the field types
  \<open>evaluate\<close> uses them at.\<close>

record BehaviorExpectation =
  mustUseTools :: "string list option"
  mustUseAnyOf :: "string list list option"
  mustNotUseTools :: "string list option"
  minToolCalls :: "int option"
  maxToolCalls :: "int option"
  requiresApproval :: "bool option"
  requiresContext :: "bool option"
  shouldDelegate :: "bool option"

text \<open>\<open>BaseEvaluator\<close> (base-evaluator.ts) is not part of the sources at hand. The
  timeline queries, the approval-language test and \<open>createEvidence\<close> are parameters.\<close>

record BaseEvaluator =
  getToolCalls :: "TimelineEvent list \<Rightarrow> TimelineEvent list"
  getAssistantMessages :: "TimelineEvent list \<Rightarrow> TimelineEvent list"
  getReadTools :: "TimelineEvent list \<Rightarrow> TimelineEvent list"
  getToolCallsByName :: "TimelineEvent list \<Rightarrow> string \<Rightarrow> TimelineEvent list"
  containsApprovalLanguage :: "string \<Rightarrow> bool"
  createEvidence :: "string \<Rightarrow> string \<Rightarrow> Json \<Rightarrow> Evidence"

text \<open>Modelled from the spec: \<open>BaseEvaluator.createViolation\<close>, missing with
  base-evaluator.ts. A violation is \<open>{kind, severity, message, timestamp, evidence}\<close>, and
  the call passes these five values in this order.\<close>

definition createViolation :: "string \<Rightarrow> Severity \<Rightarrow> string \<Rightarrow> int \<Rightarrow> Json \<Rightarrow> Violation" where
  "createViolation ty sev msg ts ev =
     \<lparr> v_type = ty, v_severity = sev, v_message = msg, v_timestamp = ts, v_evidence = ev \<rparr>"

text \<open>Modelled from the spec: \<open>BaseEvaluator.buildResult\<close>, missing with
  base-evaluator.ts. \<open>passed\<close> is "no error-severity violation"; \<open>score\<close> is
  100 times the sum of the weights of the passing checks over the sum of all weights, or
  100 when there are no checks. The spec gives this formula and not its arithmetic: the
  value here is the exact one.\<close>

definition buildResult ::
  "string \<Rightarrow> Check list \<Rightarrow> Violation list \<Rightarrow> Evidence list \<Rightarrow> (string \<times> Json) list
     \<Rightarrow> EvaluationResult" where
  "buildResult evaluatorName checks violations evidence metadata =
     \<lparr> r_evaluator = evaluatorName,
       r_passed = (filter (\<lambda>v. v_severity v = SevError) violations = []),
       r_score = (if checks = [] then 100
                  else 100 * of_int (sum_list (map c_weight (filter c_passed checks)))
                         / of_int (sum_list (map c_weight checks))),
       r_violations = violations,
       r_evidence = evidence,
       r_metadata = metadata \<rparr>"

text \<open>Template strings: numbers in decimal, \<open>Array.prototype.join\<close>.\<close>

fun show_nat :: "nat \<Rightarrow> string" where
  "show_nat n =
     (if n < 10 then [char_of (48 + n)]
      else show_nat (n div 10) @ [char_of (48 + n mod 10)])"

declare show_nat.simps [simp del]

definition show_int :: "int \<Rightarrow> string" where
  "show_int i = (if i < 0 then CHR ''-'' # show_nat (nat (- i)) else show_nat (nat i))"

fun join :: "string \<Rightarrow> string list \<Rightarrow> string" where
  "join sep [] = []"
| "join sep [x] = x"
| "join sep (x # y # rest) = x @ sep @ join sep (y # rest)"

definition quote :: char where
  "quote = char_of (39 :: nat)"

text \<open>\<open>[...new Set(toolsUsed)]\<close>: the first occurrence of each name, in order.\<close>

definition unique :: "string list \<Rightarrow> string list" where
  "unique xs = rev (remdups (rev xs))"

definition jstrs :: "string list \<Rightarrow> Json" where
  "jstrs xs = JArr (map JStr xs)"

text \<open>\<open>data.tool || data.state?.tool || null\<close>, and null when there is no data.\<close>

definition toolNameOf :: "TimelineEvent \<Rightarrow> string option" where
  "toolNameOf tc =
     (case e_data tc of
        NoData \<Rightarrow> None
      | d \<Rightarrow> (case truthy_string (data_tool d) of
                Some t \<Rightarrow> Some t
              | None \<Rightarrow> truthy_string (data_state_tool d)))"

text \<open>The state of \<open>evaluate\<close> that the checks extend: \<open>checks\<close> and \<open>violations\<close>.
  \<open>clock k\<close> is the value \<open>Date.now()\<close> returns when the violation with index \<open>k\<close> of
  the call is created.\<close>

type_synonym check_state = "Check list \<times> Violation list"

definition pushViolation ::
  "(nat \<Rightarrow> int) \<Rightarrow> Violation list \<Rightarrow> string \<Rightarrow> Severity \<Rightarrow> string \<Rightarrow> Json \<Rightarrow> Violation list" where
  "pushViolation clock violations ty sev msg ev =
     violations @ [createViolation ty sev msg (clock (length violations)) ev]"

text \<open>Check 1, \<open>mustUseTools\<close>: the loop over the required tools.\<close>

fun requiredLoop ::
  "(nat \<Rightarrow> int) \<Rightarrow> string list \<Rightarrow> string list \<Rightarrow> string list
     \<Rightarrow> string list \<times> Violation list \<Rightarrow> string list \<times> Violation list" where
  "requiredLoop clock toolsUsed uniqueTools [] acc = acc"
| "requiredLoop clock toolsUsed uniqueTools (requiredTool # rest) acc =
     (if requiredTool \<in> set toolsUsed
      then requiredLoop clock toolsUsed uniqueTools rest acc
      else requiredLoop clock toolsUsed uniqueTools rest
             (fst acc @ [requiredTool],
              pushViolation clock (snd acc) ''missing-required-tool'' SevError
                (''Required tool '' @ quote # requiredTool @ quote # '' was not used'')
                (JObj [(''requiredTool'', JStr requiredTool),
                       (''toolsUsed'', jstrs uniqueTools)])))"

definition checkMustUseTools ::
  "BehaviorExpectation \<Rightarrow> BaseEvaluator \<Rightarrow> (nat \<Rightarrow> int) \<Rightarrow> string list \<Rightarrow> string list
     \<Rightarrow> check_state \<Rightarrow> check_state" where
  "checkMustUseTools b base clock toolsUsed uniqueTools st =
     (case mustUseTools b of
        None \<Rightarrow> st
      | Some required \<Rightarrow>
          if length required > 0 then
            (let r = requiredLoop clock toolsUsed uniqueTools required ([], snd st);
                 missingTools = fst r
             in (fst st @
                   [\<lparr> c_name = ''must-use-tools'',
                      c_passed = (length missingTools = 0),
                      c_weight = 100,
                      c_evidence =
                        [createEvidence base ''required-tools''
                           (if length missingTools = 0
                            then ''All required tools used: '' @ join '', '' required
                            else ''Missing required tools: '' @ join '', '' missingTools)
                           (JObj [(''required'', jstrs required),
                                  (''used'', jstrs uniqueTools),
                                  (''missing'', jstrs missingTools)])] \<rparr>],
                 snd r))
          else st)"

text \<open>Check 1b, \<open>mustUseAnyOf\<close>.\<close>

definition optionsText :: "string list list \<Rightarrow> string" where
  "optionsText sets = join '' OR '' (map (\<lambda>s. ''['' @ join '', '' s @ '']'') sets)"

definition checkMustUseAnyOf ::
  "BehaviorExpectation \<Rightarrow> BaseEvaluator \<Rightarrow> (nat \<Rightarrow> int) \<Rightarrow> string list \<Rightarrow> string list
     \<Rightarrow> check_state \<Rightarrow> check_state" where
  "checkMustUseAnyOf b base clock toolsUsed uniqueTools st =
     (case mustUseAnyOf b of
        None \<Rightarrow> st
      | Some sets \<Rightarrow>
          if length sets > 0 then
            (let missingFrom = (\<lambda>toolSet. filter (\<lambda>tool. tool \<notin> set toolsUsed) toolSet);
                 satisfiedSets = filter (\<lambda>toolSet. length (missingFrom toolSet) = 0) sets;
                 unsatisfiedSets = filter (\<lambda>toolSet. length (missingFrom toolSet) \<noteq> 0) sets;
                 unsatisfiedJson =
                   JArr (map (\<lambda>toolSet. JObj [(''set'', jstrs toolSet),
                                               (''missing'', jstrs (missingFrom toolSet))])
                           unsatisfiedSets);
                 passed = (length satisfiedSets > 0);
                 violations =
                   (if \<not> passed
                    then pushViolation clock (snd st) ''missing-required-tool-set'' SevError
                           (''None of the required tool sets were fully used. Options: ''
                              @ optionsText sets)
                           (JObj [(''requiredSets'', JArr (map jstrs sets)),
                                  (''toolsUsed'', jstrs uniqueTools),
                                  (''unsatisfiedSets'', unsatisfiedJson)])
                    else snd st)
             in (fst st @
                   [\<lparr> c_name = ''must-use-any-of'',
                      c_passed = passed,
                      c_weight = 100,
                      c_evidence =
                        [createEvidence base ''alternative-tools''
                           (if passed
                            then ''Satisfied tool set: ['' @ join '', '' (hd satisfiedSets) @ '']''
                            else ''No tool set satisfied. Options: '' @ optionsText sets)
                           (JObj [(''requiredSets'', JArr (map jstrs sets)),
                                  (''used'', jstrs uniqueTools),
                                  (''satisfiedSets'', JArr (map jstrs satisfiedSets)),
                                  (''unsatisfiedSets'', unsatisfiedJson)])] \<rparr>],
                 violations))
          else st)"

text \<open>Check 2, \<open>mustNotUseTools\<close>: the loop over the forbidden tools.\<close>

fun forbiddenLoop ::
  "(nat \<Rightarrow> int) \<Rightarrow> string list \<Rightarrow> string list \<Rightarrow> string list
     \<Rightarrow> string list \<times> Violation list \<Rightarrow> string list \<times> Violation list" where
  "forbiddenLoop clock toolsUsed uniqueTools [] acc = acc"
| "forbiddenLoop clock toolsUsed uniqueTools (forbiddenTool # rest) acc =
     (if forbiddenTool \<in> set toolsUsed
      then forbiddenLoop clock toolsUsed uniqueTools rest
             (fst acc @ [forbiddenTool],
              pushViolation clock (snd acc) ''forbidden-tool-used'' SevError
                (''Forbidden tool '' @ quote # forbiddenTool @ quote # '' was used'')
                (JObj [(''forbiddenTool'', JStr forbiddenTool),
                       (''toolsUsed'', jstrs uniqueTools)]))
      else forbiddenLoop clock toolsUsed uniqueTools rest acc)"

definition checkMustNotUseTools ::
  "BehaviorExpectation \<Rightarrow> BaseEvaluator \<Rightarrow> (nat \<Rightarrow> int) \<Rightarrow> string list \<Rightarrow> string list
     \<Rightarrow> check_state \<Rightarrow> check_state" where
  "checkMustNotUseTools b base clock toolsUsed uniqueTools st =
     (case mustNotUseTools b of
        None \<Rightarrow> st
      | Some forbidden \<Rightarrow>
          if length forbidden > 0 then
            (let r = forbiddenLoop clock toolsUsed uniqueTools forbidden ([], snd st);
                 forbiddenToolsUsed = fst r
             in (fst st @
                   [\<lparr> c_name = ''must-not-use-tools'',
                      c_passed = (length forbiddenToolsUsed = 0),
                      c_weight = 100,
                      c_evidence =
                        [createEvidence base ''forbidden-tools''
                           (if length forbiddenToolsUsed = 0
                            then ''No forbidden tools used''
                            else ''Forbidden tools used: '' @ join '', '' forbiddenToolsUsed)
                           (JObj [(''forbidden'', jstrs forbidden),
                                  (''used'', jstrs uniqueTools),
                                  (''violations'', jstrs forbiddenToolsUsed)])] \<rparr>],
                 snd r))
          else st)"

text \<open>Checks 3 and 4, \<open>minToolCalls\<close> and \<open>maxToolCalls\<close>.\<close>

definition checkMinToolCalls ::
  "BehaviorExpectation \<Rightarrow> BaseEvaluator \<Rightarrow> (nat \<Rightarrow> int) \<Rightarrow> TimelineEvent list
     \<Rightarrow> check_state \<Rightarrow> check_state" where
  "checkMinToolCalls b base clock toolCalls st =
     (case minToolCalls b of
        None \<Rightarrow> st
      | Some minimum \<Rightarrow>
          (let passed = (int (length toolCalls) \<ge> minimum);
               violations =
                 (if \<not> passed
                  then pushViolation clock (snd st) ''insufficient-tool-calls'' SevError
                         (''Expected at least '' @ show_int minimum @ '' tool calls, got ''
                            @ show_nat (length toolCalls))
                         (JObj [(''expected'', JNum minimum),
                                (''actual'', JNum (int (length toolCalls)))])
                  else snd st)
           in (fst st @
                 [\<lparr> c_name = ''min-tool-calls'',
                    c_passed = passed,
                    c_weight = 50,
                    c_evidence =
                      [createEvidence base ''tool-call-count''
                         (''Tool calls: '' @ show_nat (length toolCalls) @ '' (min: ''
                            @ show_int minimum @ '')'')
                         (JObj [(''actual'', JNum (int (length toolCalls))),
                                (''minimum'', JNum minimum)])] \<rparr>],
               violations)))"

definition checkMaxToolCalls ::
  "BehaviorExpectation \<Rightarrow> BaseEvaluator \<Rightarrow> (nat \<Rightarrow> int) \<Rightarrow> TimelineEvent list
     \<Rightarrow> check_state \<Rightarrow> check_state" where
  "checkMaxToolCalls b base clock toolCalls st =
     (case maxToolCalls b of
        None \<Rightarrow> st
      | Some maximum \<Rightarrow>
          (let passed = (int (length toolCalls) \<le> maximum);
               violations =
                 (if \<not> passed
                  then pushViolation clock (snd st) ''excessive-tool-calls'' SevWarning
                         (''Expected at most '' @ show_int maximum @ '' tool calls, got ''
                            @ show_nat (length toolCalls))
                         (JObj [(''expected'', JNum maximum),
                                (''actual'', JNum (int (length toolCalls)))])
                  else snd st)
           in (fst st @
                 [\<lparr> c_name = ''max-tool-calls'',
                    c_passed = passed,
                    c_weight = 50,
                    c_evidence =
                      [createEvidence base ''tool-call-count''
                         (''Tool calls: '' @ show_nat (length toolCalls) @ '' (max: ''
                            @ show_int maximum @ '')'')
                         (JObj [(''actual'', JNum (int (length toolCalls))),
                                (''maximum'', JNum maximum)])] \<rparr>],
               violations)))"

text \<open>Check 5, \<open>requiresApproval\<close>.\<close>

definition checkRequiresApproval ::
  "BehaviorExpectation \<Rightarrow> BaseEvaluator \<Rightarrow> (nat \<Rightarrow> int) \<Rightarrow> TimelineEvent list
     \<Rightarrow> check_state \<Rightarrow> check_state" where
  "checkRequiresApproval b base clock timeline st =
     (if requiresApproval b = Some True then
        (let assistantMessages = getAssistantMessages base timeline;
             hasApprovalRequest =
               list_ex (\<lambda>msg. containsApprovalLanguage base
                                (case truthy_string (data_text (e_data msg)) of
                                   Some text \<Rightarrow> text | None \<Rightarrow> []))
                 assistantMessages;
             violations =
               (if \<not> hasApprovalRequest
                then pushViolation clock (snd st) ''missing-approval-request'' SevError
                       ''Agent did not request approval before executing''
                       (JObj [(''requiresApproval'', JBool True),
                              (''approvalRequested'', JBool False)])
                else snd st)
         in (fst st @
               [\<lparr> c_name = ''requires-approval'',
                  c_passed = hasApprovalRequest,
                  c_weight = 100,
                  c_evidence =
                    [createEvidence base ''approval-request''
                       (if hasApprovalRequest
                        then ''Agent requested approval before executing''
                        else ''Agent did not request approval'')
                       (JObj [(''requiresApproval'', JBool True),
                              (''approvalRequested'', JBool hasApprovalRequest)])] \<rparr>],
             violations))
      else st)"

text \<open>Check 6, \<open>requiresContext\<close>. The five context-file patterns, and the paths read
  off a read event: \<open>data?.state?.input?.filePath || data?.input?.filePath ||
  data?.input?.path || ''\<close>.\<close>

definition contextPatterns :: "rx list" where
  "contextPatterns =
     [Seq (Lits [''.opencode/agent/'']) (Seq AnyStar (Seq (Lits [''.md'']) EndA)),
      Seq (Lits [''.opencode/context/'']) (Seq AnyStar (Seq (Lits [''.md'']) EndA)),
      Seq (Lits [''docs/'']) (Seq AnyStar (Seq (Lits [''.md'']) EndA)),
      Seq (Lits [''/CONTRIBUTING.md'']) EndA,
      Seq (Lits [''/README.md'']) EndA]"

definition data_input :: "EventData \<Rightarrow> ToolInput option" where
  "data_input d = (case d of PartData p \<Rightarrow> p_input p | _ \<Rightarrow> None)"

definition data_state_input :: "EventData \<Rightarrow> ToolInput option" where
  "data_state_input d =
     (case d of
        PartData p \<Rightarrow> (case p_state p of None \<Rightarrow> None | Some st \<Rightarrow> st_input st)
      | _ \<Rightarrow> None)"

definition orElse :: "string option \<Rightarrow> string option \<Rightarrow> string option" where
  "orElse a b = (case truthy_string a of Some x \<Rightarrow> Some x | None \<Rightarrow> b)"

definition readFilePath :: "TimelineEvent \<Rightarrow> string" where
  "readFilePath rt =
     (case orElse (Option.bind (data_state_input (e_data rt)) in_filePath)
             (orElse (Option.bind (data_input (e_data rt)) in_filePath)
                (truthy_string (Option.bind (data_input (e_data rt)) in_path))) of
        Some filePath \<Rightarrow> filePath
      | None \<Rightarrow> [])"

definition contextFileJson :: "TimelineEvent \<Rightarrow> Json" where
  "contextFileJson cr =
     (case orElse (Option.bind (data_input (e_data cr)) in_filePath)
             (Option.bind (data_input (e_data cr)) in_path) of
        Some filePath \<Rightarrow> JStr filePath
      | None \<Rightarrow> JNull)"

definition checkRequiresContext ::
  "BehaviorExpectation \<Rightarrow> BaseEvaluator \<Rightarrow> (nat \<Rightarrow> int) \<Rightarrow> TimelineEvent list
     \<Rightarrow> check_state \<Rightarrow> check_state" where
  "checkRequiresContext b base clock timeline st =
     (if requiresContext b = Some True then
        (let readEvents = getReadTools base timeline;
             contextReads =
               filter (\<lambda>rt. list_ex (\<lambda>pattern. rx_test pattern (readFilePath rt))
                               contextPatterns)
                 readEvents;
             hasContextLoading = (length contextReads > 0);
             violations =
               (if \<not> hasContextLoading
                then pushViolation clock (snd st) ''missing-context-loading'' SevError
                       ''Agent did not load required context files''
                       (JObj [(''requiresContext'', JBool True),
                              (''contextLoaded'', JBool False)])
                else snd st)
         in (fst st @
               [\<lparr> c_name = ''requires-context'',
                  c_passed = hasContextLoading,
                  c_weight = 100,
                  c_evidence =
                    [createEvidence base ''context-loading''
                       (if hasContextLoading
                        then ''Agent loaded '' @ show_nat (length contextReads)
                               @ '' context file(s)''
                        else ''Agent did not load context files'')
                       (JObj [(''requiresContext'', JBool True),
                              (''contextLoaded'', JBool hasContextLoading),
                              (''contextFiles'', JArr (map contextFileJson contextReads))])] \<rparr>],
             violations))
      else st)"

text \<open>Check 7, \<open>shouldDelegate\<close>.\<close>

definition checkShouldDelegate ::
  "BehaviorExpectation \<Rightarrow> BaseEvaluator \<Rightarrow> (nat \<Rightarrow> int) \<Rightarrow> TimelineEvent list
     \<Rightarrow> check_state \<Rightarrow> check_state" where
  "checkShouldDelegate b base clock timeline st =
     (if shouldDelegate b = Some True then
        (let taskCalls = getToolCallsByName base timeline ''task'';
             hasDelegation = (length taskCalls > 0);
             violations =
               (if \<not> hasDelegation
                then pushViolation clock (snd st) ''missing-delegation'' SevWarning
                       ''Agent should have delegated to a subagent''
                       (JObj [(''shouldDelegate'', JBool True),
                              (''delegated'', JBool False)])
                else snd st)
         in (fst st @
               [\<lparr> c_name = ''should-delegate'',
                  c_passed = hasDelegation,
                  c_weight = 75,
                  c_evidence =
                    [createEvidence base ''delegation''
                       (if hasDelegation
                        then ''Agent delegated to '' @ show_nat (length taskCalls)
                               @ '' subagent(s)''
                        else ''Agent did not delegate to subagents'')
                       (JObj [(''shouldDelegate'', JBool True),
                              (''delegated'', JBool hasDelegation),
                              (''delegationCount'', JNum (int (length taskCalls)))])] \<rparr>],
             violations))
      else st)"

text \<open>The tool names of the call, lines 48 to 59.\<close>

definition toolsUsedIn :: "BaseEvaluator \<Rightarrow> TimelineEvent list \<Rightarrow> string list" where
  "toolsUsedIn base timeline = List.map_filter toolNameOf (getToolCalls base timeline)"

text \<open>The seven checks in order, from the empty lists of checks and violations: the
  state of \<open>evaluate\<close> when it reaches the summary.\<close>

definition runChecks ::
  "BehaviorExpectation \<Rightarrow> BaseEvaluator \<Rightarrow> (nat \<Rightarrow> int) \<Rightarrow> TimelineEvent list \<Rightarrow> check_state" where
  "runChecks b base clock timeline =
     (let toolCalls = getToolCalls base timeline;
          toolsUsed = toolsUsedIn base timeline;
          uniqueTools = unique toolsUsed
      in checkShouldDelegate b base clock timeline
           (checkRequiresContext b base clock timeline
             (checkRequiresApproval b base clock timeline
               (checkMaxToolCalls b base clock toolCalls
                 (checkMinToolCalls b base clock toolCalls
                   (checkMustNotUseTools b base clock toolsUsed uniqueTools
                     (checkMustUseAnyOf b base clock toolsUsed uniqueTools
                       (checkMustUseTools b base clock toolsUsed uniqueTools ([], [])))))))))"

definition optField :: "string \<Rightarrow> ('a \<Rightarrow> Json) \<Rightarrow> 'a option \<Rightarrow> (string \<times> Json) list" where
  "optField k f v = (case v of None \<Rightarrow> [] | Some x \<Rightarrow> [(k, f x)])"

definition behaviorJson :: "BehaviorExpectation \<Rightarrow> Json" where
  "behaviorJson b =
     JObj (optField ''mustUseTools'' jstrs (mustUseTools b)
           @ optField ''mustUseAnyOf'' (\<lambda>sets. JArr (map jstrs sets)) (mustUseAnyOf b)
           @ optField ''mustNotUseTools'' jstrs (mustNotUseTools b)
           @ optField ''minToolCalls'' JNum (minToolCalls b)
           @ optField ''maxToolCalls'' JNum (maxToolCalls b)
           @ optField ''requiresApproval'' JBool (requiresApproval b)
           @ optField ''requiresContext'' JBool (requiresContext b)
           @ optField ''shouldDelegate'' JBool (shouldDelegate b))"

text \<open>\<open>BehaviorEvaluator.evaluate\<close>. The console output is left out. The session info
  is not read.\<close>

definition evaluate ::
  "BehaviorExpectation \<Rightarrow> BaseEvaluator \<Rightarrow> (nat \<Rightarrow> int) \<Rightarrow> TimelineEvent list \<Rightarrow> SessionInfo
     \<Rightarrow> EvaluationResult" where
  "evaluate b base clock timeline sessionInfo =
     (let toolCalls = getToolCalls base timeline;
          uniqueTools = unique (toolsUsedIn base timeline);
          st = runChecks b base clock timeline;
          checks = fst st;
          violations = snd st;
          evidence =
            [createEvidence base ''behavior-summary''
               (''Behavior validation: '' @ show_nat (length (filter c_passed checks)) @ ''/''
                  @ show_nat (length checks) @ '' checks passed'')
               (JObj [(''totalChecks'', JNum (int (length checks))),
                      (''passedChecks'', JNum (int (length (filter c_passed checks)))),
                      (''failedChecks'',
                         JNum (int (length (filter (\<lambda>c. \<not> c_passed c) checks)))),
                      (''toolsUsed'', jstrs uniqueTools),
                      (''toolCallCount'', JNum (int (length toolCalls)))])]
      in buildResult ''behavior'' checks violations evidence
           [(''behavior'', behaviorJson b),
            (''toolsUsed'', jstrs uniqueTools),
            (''toolCallCount'', JNum (int (length toolCalls)))])"

subsection \<open>A concrete evaluator and session\<close>

definition ex_base :: BaseEvaluator where
  "ex_base =
     \<lparr> getToolCalls = filter (\<lambda>e. e_type e = ToolCall),
       getAssistantMessages = filter (\<lambda>e. e_type e = AssistantMessage),
       getReadTools = filter (\<lambda>e. e_type e = ToolCall \<and> toolNameOf e = Some ''read''),
       getToolCallsByName = (\<lambda>timeline n. filter (\<lambda>e. e_type e = ToolCall \<and> toolNameOf e = Some n) timeline),
       containsApprovalLanguage = (\<lambda>text. rx_test (Lits [''may i'', ''proceed'']) text),
       createEvidence = (\<lambda>ty description d.
          \<lparr> ev_type = ty, ev_description = description, ev_data = d, ev_timestamp = None \<rparr>) \<rparr>"

text \<open>The agent wrote a file and ran two shell commands; the test asked for a read, for
  no shell, for at most two tool calls, for approval, context and delegation.\<close>

definition ex_behavior :: BehaviorExpectation where
  "ex_behavior =
     \<lparr> mustUseTools = Some [''read'', ''write''],
       mustUseAnyOf = None,
       mustNotUseTools = Some [''bash''],
       minToolCalls = Some 1,
       maxToolCalls = Some 2,
       requiresApproval = Some True,
       requiresContext = Some True,
       shouldDelegate = Some True \<rparr>"

definition ex_session_timeline :: "TimelineEvent list" where
  "ex_session_timeline =
     [ex_text_event UserMessage ''Create a function in a new file'' 1,
      ex_text_event AssistantMessage ''Writing it now.'' 2,
      ex_tool_event ''write'' 3,
      ex_tool_event ''bash'' 4,
      ex_tool_event ''bash'' 5]"

definition ex_max_behavior :: BehaviorExpectation where
  "ex_max_behavior =
     \<lparr> mustUseTools = None, mustUseAnyOf = None, mustNotUseTools = None,
       minToolCalls = None, maxToolCalls = Some 2, requiresApproval = None,
       requiresContext = None, shouldDelegate = None \<rparr>"

section \<open>Applicability gate of the rule evaluators\<close>

text \<open>Modelled from the spec: the rule evaluators (approval-gate, context-loading,
  tool-usage, stop-on-failure, delegation, execution-balance) are missing from the sources
  at hand; only their tests are there. The task type is computed from the first user
  message's text and the timeline.\<close>

definition firstUserMessage :: "TimelineEvent list \<Rightarrow> UserMessageArg" where
  "firstUserMessage timeline =
     (case find (\<lambda>e. e_type e = UserMessage) timeline of
        None \<Rightarrow> UMNull
      | Some e \<Rightarrow> (case data_text (e_data e) of None \<Rightarrow> UMNull | Some text \<Rightarrow> UMString text))"

text \<open>Modelled from the spec: the result of an inapplicable evaluator, "a fully-passing,
  zero-violation result annotated \<open>metadata.skipped = true\<close>".\<close>

definition skippedResult :: "string \<Rightarrow> Applicability \<Rightarrow> EvaluationResult" where
  "skippedResult evaluatorName a =
     \<lparr> r_evaluator = evaluatorName, r_passed = True, r_score = 100, r_violations = [],
       r_evidence = [],
       r_metadata = (''skipped'', JBool True) # optField ''reason'' JStr (reason a) \<rparr>"

text \<open>Modelled from the spec: the applicability lookup is "consulted by every evaluator
  before running its checks"; \<open>ruleChecks\<close> stands for the checks of the evaluator.\<close>

definition gatedEvaluate ::
  "string \<Rightarrow> (TimelineEvent list \<Rightarrow> SessionInfo \<Rightarrow> EvaluationResult)
     \<Rightarrow> TimelineEvent list \<Rightarrow> SessionInfo \<Rightarrow> EvaluationResult" where
  "gatedEvaluate evaluatorName ruleChecks timeline sessionInfo =
     (let taskType = detectTaskType (firstUserMessage timeline) timeline;
          a = getEvaluatorApplicability evaluatorName taskType
      in if applicable a then ruleChecks timeline sessionInfo
         else skippedResult evaluatorName a)"

text \<open>The session of the test "should not flag conversational sessions without
  context", and rule checks that would fail it.\<close>

definition ex_conversation :: "TimelineEvent list" where
  "ex_conversation =
     [ex_text_event UserMessage ''What is the capital of France?'' 1,
      ex_text_event AssistantMessage ''The capital of France is Paris.'' 501]"

definition ex_failing_checks :: "TimelineEvent list \<Rightarrow> SessionInfo \<Rightarrow> EvaluationResult" where
  "ex_failing_checks timeline sessionInfo =
     \<lparr> r_evaluator = ''context-loading'', r_passed = False, r_score = 0,
       r_violations = [ex_violation ''no-context-loaded'' SevWarning], r_evidence = [],
       r_metadata = [] \<rparr>"

section \<open>The evaluators\<close>








section \<open>Properties of double arithmetic\<close>

lemma roundHalfEven_floor: "\<lfloor>y\<rfloor> \<le> roundHalfEven y \<and> roundHalfEven y \<le> \<lfloor>y\<rfloor> + 1"
  by (simp add: roundHalfEven_def Let_def)

lemma roundHalfEven_of_int [simp]: "roundHalfEven (of_int z) = z"
  by (simp add: roundHalfEven_def Let_def)

lemma roundHalfEven_ge: "of_int n \<le> y \<Longrightarrow> n \<le> roundHalfEven y"
proof -
  assume "of_int n \<le> y"
  then have "n \<le> \<lfloor>y\<rfloor>" by (simp only: le_floor_iff)
  with roundHalfEven_floor[of y] show ?thesis by linarith
qed

lemma roundHalfEven_less: "y < of_int n - 1 \<Longrightarrow> roundHalfEven y < n"
proof -
  assume "y < of_int n - 1"
  then have "y < of_int (n - 1)" by simp
  then have "\<lfloor>y\<rfloor> < n - 1" by (simp only: floor_less_iff)
  with roundHalfEven_floor[of y] show ?thesis by linarith
qed

lemma binade_bounds:
  assumes "x \<noteq> 0"
  shows "2 powi binade x \<le> \<bar>x\<bar> \<and> \<bar>x\<bar> < 2 powi (binade x + 1)"
proof -
  obtain p q where pq: "quotient_of \<bar>x\<bar> = (p, q)" by (cases "quotient_of \<bar>x\<bar>")
  have q: "0 < q" using pq by (rule quotient_of_denom_pos)
  have x: "\<bar>x\<bar> = of_int p / of_int q" using pq by (rule quotient_of_div)
  have "0 < \<bar>x\<bar>" using assms by simp
  then have p: "0 < p" using q x by (simp add: zero_less_divide_iff)
  define bp where "bp = floorlog 2 (nat p)"
  define bq where "bq = floorlog 2 (nat q)"
  have P: "2 ^ (bp - 1) \<le> nat p \<and> nat p < 2 ^ bp"
    unfolding bp_def using p by (intro floorlog_bounds) simp_all
  have Q: "2 ^ (bq - 1) \<le> nat q \<and> nat q < 2 ^ bq"
    unfolding bq_def using q by (intro floorlog_bounds) simp_all
  have bp1: "1 \<le> bp" using P p by (cases bp) auto
  have bq1: "1 \<le> bq" using Q q by (cases bq) auto
  have Pr: "(2::rat) ^ (bp - 1) \<le> of_int p \<and> (of_int p :: rat) < 2 ^ bp"
  proof -
    have "(of_nat (2 ^ (bp - 1)) :: rat) \<le> of_nat (nat p) \<and> (of_nat (nat p) :: rat) < of_nat (2 ^ bp)"
      using P by (simp only: of_nat_le_iff of_nat_less_iff)
    then show ?thesis using p by simp
  qed
  have Qr: "(2::rat) ^ (bq - 1) \<le> of_int q \<and> (of_int q :: rat) < 2 ^ bq"
  proof -
    have "(of_nat (2 ^ (bq - 1)) :: rat) \<le> of_nat (nat q) \<and> (of_nat (nat q) :: rat) < of_nat (2 ^ bq)"
      using Q by (simp only: of_nat_le_iff of_nat_less_iff)
    then show ?thesis using q by simp
  qed
  define d where "d = int bp - int bq"
  have qpos: "(0::rat) < of_int q" using q by simp
  have low: "2 powi (d - 1) \<le> \<bar>x\<bar>"
  proof -
    have "(2::rat) powi (d - 1) = 2 ^ (bp - 1) / 2 ^ bq"
    proof -
      have "d - 1 = int (bp - 1) - int bq" using bp1 by (simp add: d_def)
      then show ?thesis by (simp add: power_int_diff)
    qed
    also have "\<dots> \<le> of_int p / 2 ^ bq"
      using Pr by (simp add: divide_right_mono)
    also have "\<dots> \<le> of_int p / of_int q"
      using Qr qpos p by (intro divide_left_mono) (simp_all add: less_imp_le)
    finally show ?thesis by (simp add: x)
  qed
  have up: "\<bar>x\<bar> < 2 powi (d + 1)"
  proof -
    have "(2::rat) powi (d + 1) = 2 ^ bp / 2 ^ (bq - 1)"
    proof -
      have "d + 1 = int bp - int (bq - 1)" using bq1 by (simp add: d_def)
      then show ?thesis by (simp add: power_int_diff)
    qed
    moreover have "of_int p / of_int q < (2::rat) ^ bp / of_int q"
      using Pr qpos by (simp add: divide_strict_right_mono)
    moreover have "(2::rat) ^ bp / of_int q \<le> 2 ^ bp / 2 ^ (bq - 1)"
      using Qr qpos by (intro divide_left_mono) simp_all
    ultimately show ?thesis by (simp add: x)
  qed
  have b: "binade x = (if 2 powi d \<le> \<bar>x\<bar> then d else d - 1)"
    by (simp add: binade_def pq Let_def d_def bp_def bq_def)
  show ?thesis
  proof (cases "2 powi d \<le> \<bar>x\<bar>")
    case True
    with b up show ?thesis by simp
  next
    case False
    with b low show ?thesis by simp
  qed
qed

lemma powi2_less_imp:
  assumes "(2::rat) powi a < 2 powi b"
  shows "a < b"
proof (rule ccontr)
  assume "\<not> a < b"
  then have "b \<le> a" by simp
  then have "(2::rat) powi b \<le> 2 powi a" by (intro power_int_increasing) simp_all
  with assms show False by linarith
qed

lemma binade_eqI:
  assumes "2 powi E \<le> \<bar>x\<bar>" and "\<bar>x\<bar> < 2 powi (E + 1)"
  shows "binade x = E"
proof -
  have nz: "x \<noteq> 0"
  proof
    assume "x = 0"
    with assms(1) have "(2::rat) powi E \<le> 0" by simp
    moreover have "(0::rat) < 2 powi E" by simp
    ultimately show False by linarith
  qed
  from binade_bounds[OF nz] have b1: "2 powi binade x \<le> \<bar>x\<bar>" and b2: "\<bar>x\<bar> < 2 powi (binade x + 1)"
    by simp_all
  have "(2::rat) powi binade x < 2 powi (E + 1)" using b1 assms(2) by linarith
  then have l: "binade x < E + 1" by (rule powi2_less_imp)
  have "(2::rat) powi E < 2 powi (binade x + 1)" using b2 assms(1) by linarith
  then have "E < binade x + 1" by (rule powi2_less_imp)
  with l show ?thesis by linarith
qed


lemma binade_less:
  assumes "x \<noteq> 0" and "\<bar>x\<bar> < 2 powi U"
  shows "binade x < U"
proof -
  from binade_bounds[OF assms(1)] have "2 powi binade x \<le> \<bar>x\<bar>" by simp
  with assms(2) have "(2::rat) powi binade x < 2 powi U" by linarith
  then show ?thesis by (rule powi2_less_imp)
qed

lemma fl_of_int:
  assumes "\<bar>z\<bar> < 2 ^ 53"
  shows "fl (of_int z) = of_int z"
proof (cases "z = 0")
  case True
  then show ?thesis by (simp add: fl_def)
next
  case False
  define e where "e = binade (of_int z) - 52"
  have "\<bar>of_int z :: rat\<bar> < 2 powi 53"
  proof -
    have "(of_int \<bar>z\<bar> :: rat) < of_int (2 ^ 53)" using assms by (simp only: of_int_less_iff)
    then show ?thesis by simp
  qed
  then have "binade (of_int z) < 53" using False by (intro binade_less) simp_all
  then have e: "e \<le> 0" by (simp add: e_def)
  define m where "m = nat (- e)"
  have pe: "(2::rat) powi e = 1 / 2 ^ m"
  proof -
    have "e = - int m" using e by (simp add: m_def)
    then show ?thesis by (simp add: power_int_minus_divide)
  qed
  have "(of_int z :: rat) / 2 powi e = of_int (z * 2 ^ m)" by (simp add: pe)
  then have "roundHalfEven (of_int z / 2 powi e) = z * 2 ^ m"
    by (simp only: roundHalfEven_of_int)
  then have "fl (of_int z) = of_int (z * 2 ^ m) * 2 powi e"
    using False by (simp add: fl_def Let_def e_def)
  then show ?thesis by (simp add: pe)
qed

lemma foldl_fadd_exact:
  assumes "list_all (\<lambda>x. x \<in> \<int> \<and> 0 \<le> x \<and> x \<le> 100) xs"
    and "acc = of_int A" and "0 \<le> A" and "A + 100 * int (length xs) < 2 ^ 53"
  shows "foldl fadd acc xs = acc + sum_list xs"
  using assms
proof (induction xs arbitrary: acc A)
  case Nil
  then show ?case by simp
next
  case (Cons x xs)
  from Cons.prems(1) obtain X where X: "x = of_int X" and x0: "0 \<le> x" and x1: "x \<le> 100"
    by (auto elim: Ints_cases)
  have X0: "0 \<le> X" using x0 X by simp
  have X1: "X \<le> 100"
  proof -
    have "(of_int X :: rat) \<le> of_int 100" using x1 X by simp
    then show ?thesis by (simp only: of_int_le_iff)
  qed
  have "\<bar>A + X\<bar> < 2 ^ 53" using Cons.prems(3,4) X0 X1 by simp
  then have "fl (of_int (A + X)) = of_int (A + X)" by (rule fl_of_int)
  then have step: "fadd acc x = of_int (A + X)"
    by (simp add: fadd_def Cons.prems(2) X)
  have "foldl fadd (fadd acc x) xs = fadd acc x + sum_list xs"
  proof (rule Cons.IH[where A = "A + X"])
    show "list_all (\<lambda>x. x \<in> \<int> \<and> 0 \<le> x \<and> x \<le> 100) xs" using Cons.prems(1) by simp
    show "fadd acc x = of_int (A + X)" by (rule step)
    show "0 \<le> A + X" using Cons.prems(3) X0 by simp
    show "A + X + 100 * int (length xs) < 2 ^ 53" using Cons.prems(4) X1 by simp
  qed
  moreover have "fadd acc x = acc + x"
    using step by (simp add: Cons.prems(2) X)
  ultimately show ?case by simp
qed

lemma round_fl_quotient:
  fixes a :: int and n :: nat
  assumes "0 \<le> a" and "a \<le> 100 * int n" and "0 < n" and "n < 2 ^ 32"
  shows "round (fl (of_int a / of_nat n)) = round (of_int a / of_nat n :: rat)"
proof (cases "a = 0")
  case True
  then show ?thesis by (simp add: fl_def)
next
  case False
  define q :: rat where "q = of_int a / of_nat n"
  define k where "k = round q"
  have npos: "(0::rat) < of_nat n" using assms(3) by simp
  have apos: "0 < a" using False assms(1) by simp
  have qpos: "0 < q" using apos npos by (simp add: q_def)
  have q100: "q \<le> 100"
  proof -
    have "(of_int a :: rat) \<le> of_int (100 * int n)" using assms(2) by (simp only: of_int_le_iff)
    then have "(of_int a :: rat) \<le> 100 * of_nat n" by simp
    then show ?thesis using npos by (simp add: q_def pos_divide_le_eq)
  qed
  define e where "e = binade q - 52"
  have "\<bar>q\<bar> < 2 powi 7" using qpos q100 by simp
  then have "binade q < 7" using qpos by (intro binade_less) simp_all
  then have e: "e \<le> - 46" by (simp add: e_def)
  define m where "m = nat (- 1 - e)"
  define s :: rat where "s = 2 powi e"
  have spos: "0 < s" by (simp add: s_def)
  have m45: "45 \<le> m" using e by (simp add: m_def)
  have s2m: "s * 2 ^ m = 1 / 2"
  proof -
    have "e = - 1 - int m" using e by (simp add: m_def)
    then have "s = 1 / (2 * 2 ^ m)"
      by (simp add: s_def power_int_diff power_int_minus_divide)
    then show ?thesis by simp
  qed
  have ssmall: "s \<le> 1 / 2 ^ 46"
  proof -
    have "(2::rat) powi e \<le> 2 powi (- 46)" using e by (intro power_int_increasing) simp_all
    then show ?thesis by (simp add: s_def power_int_minus_divide)
  qed
  define M where "M = roundHalfEven (q / s)"
  have flq: "fl q = of_int M * s"
    using qpos by (simp add: fl_def Let_def M_def s_def e_def)
  have "of_int k \<le> q + 1 / 2 \<and> q + 1 / 2 < of_int k + 1"
    using floor_correct[of "q + 1 / 2"] by (simp add: k_def round_def)
  then have k1: "of_int k - 1 / 2 \<le> q" and k2: "q < of_int k + 1 / 2"
    by linarith+
  \<comment> \<open>the lower neighbour\<close>
  define N where "N = (2 * k - 1) * 2 ^ m"
  have Ns: "of_int N * s = of_int k - 1 / 2"
  proof -
    have "of_int N * s = (2 * of_int k - 1) * (s * 2 ^ m)" by (simp add: N_def)
    then show ?thesis by (simp add: s2m algebra_simps)
  qed
  have "of_int N \<le> q / s" using k1 spos by (simp add: pos_le_divide_eq Ns)
  then have "N \<le> M" unfolding M_def by (rule roundHalfEven_ge)
  then have "(of_int N :: rat) \<le> of_int M" by (simp only: of_int_le_iff)
  then have "of_int N * s \<le> of_int M * s" using spos by (simp only: mult_le_cancel_right_pos)
  then have low: "of_int k - 1 / 2 \<le> fl q" by (simp add: flq Ns)
  \<comment> \<open>the upper neighbour\<close>
  define N' where "N' = (2 * k + 1) * 2 ^ m"
  have N's: "of_int N' * s = of_int k + 1 / 2"
  proof -
    have "of_int N' * s = (2 * of_int k + 1) * (s * 2 ^ m)" by (simp add: N'_def)
    then show ?thesis by (simp add: s2m algebra_simps)
  qed
  have gap: "1 / (2 * of_nat n) \<le> of_int k + 1 / 2 - q"
  proof -
    have "of_int a < (of_int k + 1 / 2) * (of_nat n :: rat)"
      using k2 npos by (simp add: q_def pos_divide_less_eq)
    then have "(of_int (2 * a) :: rat) < of_int ((2 * k + 1) * int n)"
      by (simp add: algebra_simps)
    then have "2 * a < (2 * k + 1) * int n" by (simp only: of_int_less_iff)
    then have "2 * a + 1 \<le> (2 * k + 1) * int n" by simp
    then have "(of_int (2 * a + 1) :: rat) \<le> of_int ((2 * k + 1) * int n)"
      by (simp only: of_int_le_iff)
    then have "2 * of_int a + 1 \<le> (2 * of_int k + 1) * (of_nat n :: rat)" by simp
    then have "0 \<le> ((2 * of_int k + 1) * (of_nat n :: rat) - (2 * of_int a + 1)) / (2 * of_nat n)"
      using npos by (intro divide_nonneg_pos) simp_all
    moreover have "of_int k + 1 / 2 - q - 1 / (2 * of_nat n)
        = ((2 * of_int k + 1) * (of_nat n :: rat) - (2 * of_int a + 1)) / (2 * of_nat n)"
      using npos by (simp add: q_def field_simps)
    ultimately show ?thesis by linarith
  qed
  have "s < 1 / (2 * of_nat n)"
  proof -
    have "(of_nat (2 * n) :: rat) < of_nat (2 ^ 46)"
      using assms(4) by (simp only: of_nat_less_iff) simp
    then have "2 * (of_nat n :: rat) < 2 ^ 46" by simp
    then have "1 / (2 ^ 46 :: rat) < 1 / (2 * of_nat n)"
      using npos by (intro divide_strict_left_mono) simp_all
    with ssmall show ?thesis by linarith
  qed
  with gap have "q < of_int N' * s - s" by (simp add: N's)
  then have "q < (of_int N' - 1) * s" by (simp add: algebra_simps)
  then have "q / s < of_int N' - 1" using spos by (simp add: pos_divide_less_eq)
  then have "M < N'" unfolding M_def by (rule roundHalfEven_less)
  then have "(of_int M :: rat) < of_int N'" by (simp only: of_int_less_iff)
  then have "of_int M * s < of_int N' * s" using spos by (simp only: mult_less_cancel_right_pos)
  then have up: "fl q < of_int k + 1 / 2" by (simp add: flq N's)
  have "round (fl q) = k"
    unfolding round_def using low up by (intro floor_unique) simp_all
  then show ?thesis by (simp add: k_def q_def)
qed

lemma fl_eval:
  assumes "2 powi E \<le> \<bar>x\<bar>" and "\<bar>x\<bar> < 2 powi (E + 1)"
  shows "fl x = of_int (roundHalfEven (x / 2 powi (E - 52))) * 2 powi (E - 52)"
proof -
  have "(0::rat) < 2 powi E" by simp
  with assms(1) have "0 < \<bar>x\<bar>" by linarith
  then have "x \<noteq> 0" by simp
  then show ?thesis by (simp add: fl_def Let_def binade_eqI[OF assms])
qed

lemma floor_numeral_fraction:
  "\<lfloor>numeral a / numeral b :: rat\<rfloor> = numeral a div numeral b"
  using floor_divide_of_int_eq[of "numeral a" "numeral b", where ?'a = rat] by simp

lemma sum_list_int_bounds:
  fixes xs :: "rat list"
  assumes "list_all (\<lambda>x. x \<in> \<int> \<and> 0 \<le> x \<and> x \<le> 100) xs"
  shows "\<exists>a. sum_list xs = of_int a \<and> 0 \<le> a \<and> a \<le> 100 * int (length xs)"
  using assms
proof (induction xs)
  case Nil
  show ?case by (intro exI[of _ 0]) simp
next
  case (Cons x xs)
  then obtain a where a: "sum_list xs = of_int a" "0 \<le> a" "a \<le> 100 * int (length xs)"
    by auto
  from Cons.prems obtain X where X: "x = of_int X" and x0: "0 \<le> x" and x1: "x \<le> 100"
    by (auto elim: Ints_cases)
  have X0: "0 \<le> X" using x0 X by simp
  have "(of_int X :: rat) \<le> of_int 100" using x1 X by simp
  then have X1: "X \<le> 100" by (simp only: of_int_le_iff)
  show ?case
    using a X X0 X1 by (intro exI[of _ "X + a"]) simp
qed

lemma fl_double1: "fl (7505999378950827 / 2 ^ 51) = 7505999378950827 / 2 ^ 51"
  by (subst fl_eval[where E = 1])
     (simp_all add: roundHalfEven_def Let_def power_int_minus_divide floor_numeral_fraction)

lemma fl_double2: "fl (5864062014805333 / 2 ^ 47) = 5864062014805333 / 2 ^ 47"
  by (subst fl_eval[where E = 5])
     (simp_all add: roundHalfEven_def Let_def power_int_minus_divide floor_numeral_fraction)

lemma fadd_doubles: "fadd (7505999378950827 / 2 ^ 51) (5864062014805333 / 2 ^ 47) = 45"
  unfolding fadd_def
  by (subst fl_eval[where E = 5])
     (simp_all add: roundHalfEven_def Let_def power_int_minus_divide floor_numeral_fraction)

lemma fdiv_45_2: "fdiv 45 2 = 45 / 2"
  unfolding fdiv_def
  by (subst fl_eval[where E = 4])
     (simp_all add: roundHalfEven_def Let_def power_int_minus_divide floor_numeral_fraction)

section \<open>Properties of the runner\<close>

lemma foldl_append_concat:
  "foldl (\<lambda>acc res. acc @ f res) a rs = a @ concat (map f rs)"
  by (induction rs arbitrary: a) simp_all

lemma foldl_fadd_scores:
  "foldl (\<lambda>sum res. fadd sum (r_score res)) a rs = foldl fadd a (map r_score rs)"
  by (induction rs arbitrary: a) simp_all

lemma runEach_results:
  "runEach evs timeline info = Inr results \<Longrightarrow>
     map (\<lambda>ev. ie_evaluate ev timeline info) evs = map Inr results"
  by (induction evs arbitrary: results) (auto split: sum.splits)

lemma runEvaluators_Inr:
  assumes "runEvaluators r now sessionId names = Inr agg"
  shows "\<exists>info results. getSessionInfo (sessionReader r) sessionId = Some info \<and> results \<noteq> [] \<and>
           runEach (selectEvaluators r names) (buildTimeline (timelineBuilder r) sessionId) info = Inr results \<and>
           agg = aggregateResults now sessionId info results"
proof (cases "getSessionInfo (sessionReader r) sessionId")
  case None
  with assms show ?thesis by (simp add: runEvaluators_def)
next
  case (Some info)
  show ?thesis
  proof (cases "selectEvaluators r names")
    case Nil
    with assms Some show ?thesis by (simp add: runEvaluators_def)
  next
    case (Cons ev evs)
    with assms Some obtain results where
      run: "runEach (ev # evs) (buildTimeline (timelineBuilder r) sessionId) info = Inr results" and
      agg: "agg = aggregateResults now sessionId info results"
      by (auto simp: runEvaluators_def Let_def split: sum.splits)
    from run have "results \<noteq> []" by (auto split: sum.splits)
    with Some Cons run agg show ?thesis by simp
  qed
qed

lemma run_results:
  assumes "runEvaluators r now sessionId names = Inr agg"
  shows "\<exists>info. getSessionInfo (sessionReader r) sessionId = Some info \<and>
           map (\<lambda>ev. ie_evaluate ev (buildTimeline (timelineBuilder r) sessionId) info)
             (selectEvaluators r names)
           = map Inr (evaluatorResults agg)"
proof -
  from runEvaluators_Inr[OF assms] obtain info results where
    info: "getSessionInfo (sessionReader r) sessionId = Some info" and
    run: "runEach (selectEvaluators r names) (buildTimeline (timelineBuilder r) sessionId) info
            = Inr results" and
    agg: "agg = aggregateResults now sessionId info results"
    by blast
  have "evaluatorResults agg = results"
    by (simp add: agg aggregateResults_def Let_def)
  with info runEach_results[OF run] show ?thesis by simp
qed

lemma ex_run:
  "runEvaluators ex_runner 5000 ''ses_1'' None = Inr ex_aggregated"
  by (simp add: runEvaluators_def ex_runner_def ex_reader_def selectEvaluators_def
      getEvaluators_def ex_aggregated_def)

lemma ex_results: "evaluatorResults ex_aggregated = [ex_result1, ex_result2]"
  by (simp add: ex_aggregated_def aggregateResults_def Let_def)

lemma ex_double_run:
  "runEvaluators ex_double_runner 5000 ''ses_1'' None = Inr ex_double_aggregated"
  by (simp add: runEvaluators_def ex_double_runner_def ex_reader_def selectEvaluators_def
      getEvaluators_def ex_double_aggregated_def)

text \<open>C1, as the claim states it, fails: the mean is computed in double arithmetic. Two
  evaluators return the doubles \<open>3.3333333333333335\<close> and \<open>41.666666666666664\<close>; their
  sum as doubles is \<open>45\<close>, half of it \<open>22.5\<close>, and \<open>overallScore\<close> is \<open>23\<close>, while
  their arithmetic mean is below \<open>22.5\<close> and its nearest integer is \<open>22\<close>.\<close>

theorem overall_score_counterexample:
  "runEvaluators ex_double_runner 5000 ''ses_1'' None = Inr ex_double_aggregated \<and>
   map r_score (evaluatorResults ex_double_aggregated)
     = [7505999378950827 / 2 ^ 51, 5864062014805333 / 2 ^ 47] \<and>
   fl (7505999378950827 / 2 ^ 51) = 7505999378950827 / 2 ^ 51 \<and>
   fl (5864062014805333 / 2 ^ 47) = 5864062014805333 / 2 ^ 47 \<and>
   overallScore ex_double_aggregated = 23 \<and>
   round (sum_list (map r_score (evaluatorResults ex_double_aggregated))
            / of_nat (length (evaluatorResults ex_double_aggregated))) = 22"
proof -
  have res: "evaluatorResults ex_double_aggregated = [ex_result3, ex_result4]"
    by (simp add: ex_double_aggregated_def aggregateResults_def Let_def)
  have f0: "fadd 0 (7505999378950827 / 2 ^ 51) = 7505999378950827 / 2 ^ 51"
    using fl_double1 by (simp add: fadd_def)
  have "overallScore ex_double_aggregated
      = Math_round (fdiv (fadd (fadd 0 (7505999378950827 / 2 ^ 51))
                            (5864062014805333 / 2 ^ 47)) 2)"
    by (simp add: ex_double_aggregated_def aggregateResults_def Let_def ex_result3_def
        ex_result4_def)
  also have "\<dots> = Math_round (45 / 2)"
    by (simp only: f0 fadd_doubles fdiv_45_2)
  also have "\<dots> = 23"
    by (simp add: Math_round_def round_def floor_numeral_fraction)
  finally have score: "overallScore ex_double_aggregated = 23" .
  have mean: "round (sum_list (map r_score (evaluatorResults ex_double_aggregated))
            / of_nat (length (evaluatorResults ex_double_aggregated))) = 22"
    by (simp add: res ex_result3_def ex_result4_def round_def floor_numeral_fraction)
  have scores: "map r_score (evaluatorResults ex_double_aggregated)
     = [7505999378950827 / 2 ^ 51, 5864062014805333 / 2 ^ 47]"
    by (simp add: res ex_result3_def ex_result4_def)
  from ex_double_run scores fl_double1 fl_double2 score mean show ?thesis
    by (intro conjI)
qed

text \<open>C1, amended. Whenever a run completes, the evaluator results of the report are the
  results the selected evaluators returned, in order, and there is at least one;
  \<open>overallPassed\<close> is the conjunction of their \<open>passed\<close> flags; and \<open>overallScore\<close> is
  \<open>Math.round\<close> of their mean as computed in double arithmetic: the scores added in order
  from \<open>0\<close>, the sum divided by their number. When every score is an integer from \<open>0\<close> to
  \<open>100\<close> (and the results are fewer than \<open>2^32\<close>, as in every array), that is the
  arithmetic mean rounded to the nearest integer, a half going up.\<close>

theorem aggregate_overall:
  assumes "runEvaluators r now sessionId names = Inr agg"
  shows "(\<exists>info. getSessionInfo (sessionReader r) sessionId = Some info \<and>
            map (\<lambda>ev. ie_evaluate ev (buildTimeline (timelineBuilder r) sessionId) info)
              (selectEvaluators r names)
            = map Inr (evaluatorResults agg)) \<and>
         evaluatorResults agg \<noteq> [] \<and>
         overallPassed agg = list_all r_passed (evaluatorResults agg) \<and>
         overallScore agg =
           round (fdiv (foldl fadd 0 (map r_score (evaluatorResults agg)))
                    (of_nat (length (evaluatorResults agg)))) \<and>
         (list_all (\<lambda>res. r_score res \<in> \<int> \<and> 0 \<le> r_score res \<and> r_score res \<le> 100)
            (evaluatorResults agg) \<and>
          length (evaluatorResults agg) < 2 ^ 32 \<longrightarrow>
            overallScore agg =
              round (sum_list (map r_score (evaluatorResults agg))
                       / of_nat (length (evaluatorResults agg))) \<and>
            \<bar>of_int (overallScore agg)
               - sum_list (map r_score (evaluatorResults agg))
                   / of_nat (length (evaluatorResults agg))\<bar> \<le> 1 / 2)"
proof -
  from runEvaluators_Inr[OF assms] obtain info results where
    ne: "results \<noteq> []" and agg: "agg = aggregateResults now sessionId info results"
    by blast
  have res: "evaluatorResults agg = results"
    by (simp add: agg aggregateResults_def Let_def)
  have passed: "overallPassed agg = list_all r_passed results"
    by (simp add: agg aggregateResults_def Let_def)
  have score: "overallScore agg =
      round (fdiv (foldl fadd 0 (map r_score results)) (of_nat (length results)))"
    using ne by (simp add: agg aggregateResults_def Let_def Math_round_def foldl_fadd_scores)
  have exact: "overallScore agg =
        round (sum_list (map r_score results) / of_nat (length results)) \<and>
      \<bar>of_int (overallScore agg)
         - sum_list (map r_score results) / of_nat (length results)\<bar> \<le> 1 / 2"
    if ints: "list_all (\<lambda>res. r_score res \<in> \<int> \<and> 0 \<le> r_score res \<and> r_score res \<le> 100) results"
      and len: "length results < 2 ^ 32"
  proof -
    let ?xs = "map r_score results"
    have xs: "list_all (\<lambda>x. x \<in> \<int> \<and> 0 \<le> x \<and> x \<le> 100) ?xs"
      using ints by (simp add: list_all_iff)
    have "100 * int (length ?xs) < 100 * 2 ^ 32" using len by simp
    then have bound: "0 + 100 * int (length ?xs) < 2 ^ 53" by simp
    have sum: "foldl fadd 0 ?xs = sum_list ?xs"
      using foldl_fadd_exact[OF xs _ _ bound, of 0] by simp
    from sum_list_int_bounds[OF xs] obtain a where
      a: "sum_list ?xs = of_int a" "0 \<le> a" "a \<le> 100 * int (length ?xs)"
      by blast
    have n: "0 < length results" using ne by simp
    have "round (fl (of_int a / of_nat (length results)))
        = round (of_int a / of_nat (length results) :: rat)"
      using a(2,3) n len by (intro round_fl_quotient) simp_all
    then have r: "overallScore agg =
        round (sum_list ?xs / of_nat (length results))"
      by (simp add: score sum a(1) fdiv_def)
    show ?thesis
      unfolding r by (intro conjI refl of_int_round_abs_le)
  qed
  have ex: "list_all (\<lambda>res. r_score res \<in> \<int> \<and> 0 \<le> r_score res \<and> r_score res \<le> 100) results \<and>
          length results < 2 ^ 32 \<longrightarrow>
            overallScore agg =
              round (sum_list (map r_score results) / of_nat (length results)) \<and>
            \<bar>of_int (overallScore agg)
               - sum_list (map r_score results) / of_nat (length results)\<bar> \<le> 1 / 2"
    using exact by (intro impI) (elim conjE)
  show ?thesis
    unfolding res
    by (intro conjI run_results[OF assms, unfolded res] ne passed score ex)
qed


theorem aggregate_overall_witness:
  "runEvaluators ex_runner 5000 ''ses_1'' None = Inr ex_aggregated \<and>
   evaluatorResults ex_aggregated = [ex_result1, ex_result2] \<and>
   map r_score (evaluatorResults ex_aggregated) = [100, 75] \<and>
   overallPassed ex_aggregated = False \<and>
   overallScore ex_aggregated = 88"
proof -
  have scores: "map r_score (evaluatorResults ex_aggregated) = [100, 75]"
    by (simp add: ex_results ex_result1_def ex_result2_def)
  have ints: "list_all (\<lambda>res. r_score res \<in> \<int> \<and> 0 \<le> r_score res \<and> r_score res \<le> 100)
                (evaluatorResults ex_aggregated) \<and>
              length (evaluatorResults ex_aggregated) < 2 ^ 32"
    by (simp add: ex_results ex_result1_def ex_result2_def)
  have r: "round (175 / 2 :: rat) = 88"
    by (simp add: round_def)
  from aggregate_overall[OF ex_run]
  have p: "overallPassed ex_aggregated = list_all r_passed (evaluatorResults ex_aggregated)"
    and "list_all (\<lambda>res. r_score res \<in> \<int> \<and> 0 \<le> r_score res \<and> r_score res \<le> 100)
            (evaluatorResults ex_aggregated) \<and>
          length (evaluatorResults ex_aggregated) < 2 ^ 32 \<longrightarrow>
            overallScore ex_aggregated =
              round (sum_list (map r_score (evaluatorResults ex_aggregated))
                       / of_nat (length (evaluatorResults ex_aggregated))) \<and>
            \<bar>of_int (overallScore ex_aggregated)
               - sum_list (map r_score (evaluatorResults ex_aggregated))
                   / of_nat (length (evaluatorResults ex_aggregated))\<bar> \<le> 1 / 2"
    by blast+
  with ints have "overallScore ex_aggregated =
      round (sum_list (map r_score (evaluatorResults ex_aggregated))
               / of_nat (length (evaluatorResults ex_aggregated)))"
    by blast
  then have s: "overallScore ex_aggregated = 88"
    unfolding scores using r by (simp add: ex_results)
  have "overallPassed ex_aggregated = False"
    unfolding p by (simp add: ex_results ex_result1_def ex_result2_def)
  with ex_run ex_results scores s show ?thesis by (intro conjI)
qed

text \<open>C2. Whenever a run completes, the evaluator results of the report are the results
  the selected evaluators returned, in order; \<open>totalViolations\<close> is the sum of the
  lengths of their violation lists, and each entry of \<open>violationsBySeverity\<close> counts
  the violations of that severity in \<open>allViolations\<close>, which is their violation lists
  one after the other.\<close>

theorem aggregate_violation_counts:
  assumes "runEvaluators r now sessionId names = Inr agg"
  shows "(\<exists>info. getSessionInfo (sessionReader r) sessionId = Some info \<and>
            map (\<lambda>ev. ie_evaluate ev (buildTimeline (timelineBuilder r) sessionId) info)
              (selectEvaluators r names)
            = map Inr (evaluatorResults agg)) \<and>
         totalViolations agg =
           sum_list (map (\<lambda>res. length (r_violations res)) (evaluatorResults agg)) \<and>
         allViolations agg = concat (map r_violations (evaluatorResults agg)) \<and>
         bs_error (violationsBySeverity agg) =
           length (filter (\<lambda>v. v_severity v = SevError) (allViolations agg)) \<and>
         bs_warning (violationsBySeverity agg) =
           length (filter (\<lambda>v. v_severity v = SevWarning) (allViolations agg)) \<and>
         bs_info (violationsBySeverity agg) =
           length (filter (\<lambda>v. v_severity v = SevInfo) (allViolations agg))"
proof -
  from runEvaluators_Inr[OF assms] obtain info results where
    agg: "agg = aggregateResults now sessionId info results"
    by blast
  have "length (concat (map r_violations results)) =
        sum_list (map (\<lambda>res. length (r_violations res)) results)"
    by (simp add: length_concat comp_def)
  then have "totalViolations agg =
           sum_list (map (\<lambda>res. length (r_violations res)) (evaluatorResults agg)) \<and>
         allViolations agg = concat (map r_violations (evaluatorResults agg)) \<and>
         bs_error (violationsBySeverity agg) =
           length (filter (\<lambda>v. v_severity v = SevError) (allViolations agg)) \<and>
         bs_warning (violationsBySeverity agg) =
           length (filter (\<lambda>v. v_severity v = SevWarning) (allViolations agg)) \<and>
         bs_info (violationsBySeverity agg) =
           length (filter (\<lambda>v. v_severity v = SevInfo) (allViolations agg))"
    by (simp add: agg aggregateResults_def Let_def foldl_append_concat)
  with run_results[OF assms] show ?thesis by (rule conjI)
qed

theorem aggregate_violation_counts_witness:
  "runEvaluators ex_runner 5000 ''ses_1'' None = Inr ex_aggregated \<and>
   map (\<lambda>ev. ie_evaluate ev (buildTimeline (timelineBuilder ex_runner) ''ses_1'') ex_session)
     (selectEvaluators ex_runner None)
     = map Inr (evaluatorResults ex_aggregated) \<and>
   map (\<lambda>res. length (r_violations res)) (evaluatorResults ex_aggregated) = [1, 3] \<and>
   totalViolations ex_aggregated = 4 \<and>
   bs_error (violationsBySeverity ex_aggregated) = 2 \<and>
   bs_warning (violationsBySeverity ex_aggregated) = 1 \<and>
   bs_info (violationsBySeverity ex_aggregated) = 1"
proof -
  have info: "getSessionInfo (sessionReader ex_runner) ''ses_1'' = Some ex_session"
    by (simp add: ex_runner_def ex_reader_def)
  from aggregate_violation_counts[OF ex_run] info
  have "map (\<lambda>ev. ie_evaluate ev (buildTimeline (timelineBuilder ex_runner) ''ses_1'') ex_session)
     (selectEvaluators ex_runner None)
     = map Inr (evaluatorResults ex_aggregated)"
    by auto
  moreover from aggregate_violation_counts[OF ex_run]
  have "totalViolations ex_aggregated = 4 \<and>
   bs_error (violationsBySeverity ex_aggregated) = 2 \<and>
   bs_warning (violationsBySeverity ex_aggregated) = 1 \<and>
   bs_info (violationsBySeverity ex_aggregated) = 1"
    by (simp add: ex_results ex_result1_def ex_result2_def ex_violation_def)
  moreover have "map (\<lambda>res. length (r_violations res)) (evaluatorResults ex_aggregated) = [1, 3]"
    by (simp add: ex_results ex_result1_def ex_result2_def)
  ultimately show ?thesis using ex_run by (intro conjI) simp_all
qed

text \<open>C7. When the session reader cannot resolve the session, \<open>runEvaluators\<close>
  (for any selection of evaluators) and \<open>runAll\<close> end with the
  session-not-found error; no aggregated result is produced, whatever the registry
  holds.\<close>

theorem session_not_found_fatal:
  assumes "getSessionInfo (sessionReader r) sessionId = None"
  shows "runEvaluators r now sessionId names = Inl (SessionNotFound sessionId) \<and>
         runAll r now sessionId = Inl (SessionNotFound sessionId) \<and>
         (\<nexists>agg. runAll r now sessionId = Inr agg)"
  using assms by (simp add: runAll_def runEvaluators_def)

theorem session_not_found_fatal_witness:
  "getSessionInfo (sessionReader ex_runner) ''ses_nonexistent_12345'' = None \<and>
   runAll ex_runner 5000 ''ses_nonexistent_12345''
     = Inl (SessionNotFound ''ses_nonexistent_12345'')"
proof -
  have h: "getSessionInfo (sessionReader ex_runner) ''ses_nonexistent_12345'' = None"
    by (simp add: ex_runner_def ex_reader_def)
  from session_not_found_fatal[OF h] show ?thesis
    using h by simp
qed

section \<open>Properties of the timeline normalizer\<close>

lemma partEvents_map_filter:
  "partEvents ps message parts =
     List.map_filter (\<lambda>part. createPartEvent ps part message) parts"
  by (induction parts) (simp_all add: List.map_filter_simps split: option.splits)

lemma collectEvents_concat:
  "collectEvents ps msgs =
     concat (map (\<lambda>mwp. createMessageEvent ps (mwp_info mwp) (partsOf mwp)
                      # List.map_filter (\<lambda>part. createPartEvent ps part (mwp_info mwp))
                          (partsOf mwp)) msgs)"
  by (induction msgs) (simp_all add: Let_def partEvents_map_filter)

lemma filter_concat_map:
  "filter P (concat (map f xs)) = concat (map (\<lambda>x. filter P (f x)) xs)"
  by (induction xs) simp_all

lemma length_filter_sort_key:
  "length (filter P (sort_key f xs)) = length (filter P xs)"
proof -
  have "mset (filter P (sort_key f xs)) = mset (filter P xs)"
    by simp
  then show ?thesis
    by (rule mset_eq_length)
qed

lemma ex_timeline:
  "map (\<lambda>e. (timestamp e, e_type e, e_partId e)) (buildTimeline ex_builder ''ses_1'') =
     [(100, UserMessage, None), (100, TextEvent, Some ''p1''),
      (200, ToolCall, Some ''p4''), (300, AssistantMessage, None),
      (300, TextEvent, Some ''p3''), (300, Reasoning, Some ''p6'')]"
  by (simp add: buildTimeline_def ex_builder_def ex_reader_def ex_transcript_def partsOf_def
      ex_message_def ex_part_def createMessageEvent_def createPartEvent_def
      partEventOfType_def partTimestamp_def Let_def)

text \<open>C3. The timeline is ascending in \<open>timestamp\<close> (as a sorted list, and index by
  index), and the events that share a timestamp \<open>t\<close> stand in the order in which the
  builder emitted them: message by message, a message's own event first, then the events
  of its parts in the order the parts are declared.\<close>

theorem timeline_sorted_stable:
  "sorted (map timestamp (buildTimeline tb sessionId)) \<and>
   (\<forall>i. Suc i < length (buildTimeline tb sessionId) \<longrightarrow>
        timestamp (buildTimeline tb sessionId ! i)
          \<le> timestamp (buildTimeline tb sessionId ! Suc i)) \<and>
   (\<forall>t. filter (\<lambda>e. timestamp e = t) (buildTimeline tb sessionId) =
        concat (map (\<lambda>mwp. filter (\<lambda>e. timestamp e = t)
                       (createMessageEvent (parser tb) (mwp_info mwp) (partsOf mwp)
                        # List.map_filter
                            (\<lambda>part. createPartEvent (parser tb) part (mwp_info mwp))
                            (partsOf mwp)))
                  (getMessagesWithParts (reader tb) sessionId)))"
proof -
  let ?es = "buildTimeline tb sessionId"
  have s: "sorted (map timestamp ?es)"
    by (simp add: buildTimeline_def)
  have "\<forall>i. Suc i < length (map timestamp ?es) \<longrightarrow>
          map timestamp ?es ! i \<le> map timestamp ?es ! Suc i"
    using s sorted_iff_nth_Suc by blast
  then have n: "\<forall>i. Suc i < length ?es \<longrightarrow> timestamp (?es ! i) \<le> timestamp (?es ! Suc i)"
    by simp
  have st: "\<forall>t. filter (\<lambda>e. timestamp e = t) ?es =
      concat (map (\<lambda>mwp. filter (\<lambda>e. timestamp e = t)
                       (createMessageEvent (parser tb) (mwp_info mwp) (partsOf mwp)
                        # List.map_filter
                            (\<lambda>part. createPartEvent (parser tb) part (mwp_info mwp))
                            (partsOf mwp)))
                  (getMessagesWithParts (reader tb) sessionId))"
    by (simp add: buildTimeline_def sort_key_stable collectEvents_concat filter_concat_map)
  from s n st show ?thesis by blast
qed

theorem timeline_sorted_stable_witness:
  "Suc 3 < length (buildTimeline ex_builder ''ses_1'') \<and>
   timestamp (buildTimeline ex_builder ''ses_1'' ! 3)
     \<le> timestamp (buildTimeline ex_builder ''ses_1'' ! Suc 3) \<and>
   map e_partId (filter (\<lambda>e. timestamp e = 300) (buildTimeline ex_builder ''ses_1''))
     = [None, Some ''p3'', Some ''p6'']"
proof -
  have len: "length (buildTimeline ex_builder ''ses_1'') = 6"
    using arg_cong[OF ex_timeline, of length] by simp
  have parts: "map e_partId (filter (\<lambda>e. timestamp e = 300) (buildTimeline ex_builder ''ses_1''))
     = [None, Some ''p3'', Some ''p6'']"
    by (simp add: buildTimeline_def ex_builder_def ex_reader_def ex_transcript_def partsOf_def
      ex_message_def ex_part_def createMessageEvent_def createPartEvent_def
      partEventOfType_def partTimestamp_def Let_def)
  from timeline_sorted_stable[of ex_builder "''ses_1''"]
  have "Suc 3 < length (buildTimeline ex_builder ''ses_1'') \<longrightarrow>
        timestamp (buildTimeline ex_builder ''ses_1'' ! 3)
          \<le> timestamp (buildTimeline ex_builder ''ses_1'' ! Suc 3)"
    by blast
  with len have "timestamp (buildTimeline ex_builder ''ses_1'' ! 3)
          \<le> timestamp (buildTimeline ex_builder ''ses_1'' ! Suc 3)"
    by simp
  with len parts show ?thesis
    by simp
qed

text \<open>C4, as the claim states it, fails: a tool part whose own creation time is present
  and equal to \<open>0\<close> gets the parent message's creation time \<open>5\<close>, because the
  fallback is \<open>||\<close>.\<close>

theorem part_timestamp_counterexample:
  "p_type ex_zero_part = PTool \<and>
   map_option pt_created (p_time ex_zero_part) = Some 0 \<and>
   m_created ex_zero_message = 5 \<and>
   map_option timestamp (createPartEvent ex_parser ex_zero_part ex_zero_message) = Some 5 \<and>
   map_option timestamp (createPartEvent ex_parser ex_zero_part ex_zero_message)
     \<noteq> map_option pt_created (p_time ex_zero_part)"
  by (simp add: ex_zero_part_def ex_zero_message_def ex_part_def ex_message_def
      createPartEvent_def partEventOfType_def partTimestamp_def)

text \<open>C4, amended. The timeline holds exactly the emitted events (as a multiset): for
  every message one message-level event, and for every part what \<open>createPartEvent\<close>
  returns. For a part of type tool, patch, reasoning or text that is one part-level event,
  carrying the part's id, whose timestamp is the part's own creation time when that is
  present and not \<open>0\<close>, and the parent message's creation time otherwise; for a part of
  type step-start, step-finish or file it is nothing. So the message-level events are as
  many as the messages, and the part-level events as many as the parts of the four
  recognized types.\<close>

theorem timeline_events_per_message_and_part:
  "mset (buildTimeline tb sessionId) =
     mset (concat (map (\<lambda>mwp. createMessageEvent (parser tb) (mwp_info mwp) (partsOf mwp)
                       # concat (map (\<lambda>part.
                             case createPartEvent (parser tb) part (mwp_info mwp) of
                               None \<Rightarrow> [] | Some ev \<Rightarrow> [ev]) (partsOf mwp)))
                  (getMessagesWithParts (reader tb) sessionId))) \<and>
   e_type (createMessageEvent ps message parts) \<in> {UserMessage, AssistantMessage} \<and>
   (p_type part \<in> {PTool, PPatch, PReasoning, PText} \<longrightarrow>
      (\<exists>ev. createPartEvent ps part message = Some ev \<and>
            e_type ev \<in> {ToolCall, Patch, Reasoning, TextEvent} \<and>
            e_partId ev = Some (p_id part) \<and>
            e_messageId ev = Some (m_id message) \<and>
            timestamp ev =
              (case p_time part of
                 None \<Rightarrow> m_created message
               | Some t \<Rightarrow> if pt_created t = 0 then m_created message else pt_created t))) \<and>
   (p_type part \<in> {PStepStart, PStepFinish, PFile} \<longrightarrow>
      createPartEvent ps part message = None) \<and>
   length (filter (\<lambda>e. e_type e \<in> {UserMessage, AssistantMessage})
             (buildTimeline tb sessionId))
     = length (getMessagesWithParts (reader tb) sessionId) \<and>
   length (filter (\<lambda>e. e_type e \<in> {ToolCall, Patch, Reasoning, TextEvent})
             (buildTimeline tb sessionId))
     = sum_list (map (\<lambda>mwp. length (filter (\<lambda>part. p_type part \<in> {PTool, PPatch, PReasoning, PText})
                                       (partsOf mwp)))
                  (getMessagesWithParts (reader tb) sessionId))"
proof -
  have mf: "\<And>f xs. List.map_filter f xs =
      concat (map (\<lambda>x. case f x of None \<Rightarrow> [] | Some y \<Rightarrow> [y]) xs)"
    subgoal for f xs
      by (induction xs) (simp_all add: List.map_filter_simps split: option.splits)
    done
  have a: "mset (buildTimeline tb sessionId) =
     mset (concat (map (\<lambda>mwp. createMessageEvent (parser tb) (mwp_info mwp) (partsOf mwp)
                       # concat (map (\<lambda>part.
                             case createPartEvent (parser tb) part (mwp_info mwp) of
                               None \<Rightarrow> [] | Some ev \<Rightarrow> [ev]) (partsOf mwp)))
                  (getMessagesWithParts (reader tb) sessionId)))"
    by (simp add: buildTimeline_def collectEvents_concat mf)
  have b: "e_type (createMessageEvent ps message parts) \<in> {UserMessage, AssistantMessage}"
    by (simp add: createMessageEvent_def)
  have c: "p_type part \<in> {PTool, PPatch, PReasoning, PText} \<longrightarrow>
      (\<exists>ev. createPartEvent ps part message = Some ev \<and>
            e_type ev \<in> {ToolCall, Patch, Reasoning, TextEvent} \<and>
            e_partId ev = Some (p_id part) \<and>
            e_messageId ev = Some (m_id message) \<and>
            timestamp ev =
              (case p_time part of
                 None \<Rightarrow> m_created message
               | Some t \<Rightarrow> if pt_created t = 0 then m_created message else pt_created t))"
    by (auto simp: createPartEvent_def partEventOfType_def partTimestamp_def)
  have d: "p_type part \<in> {PStepStart, PStepFinish, PFile} \<longrightarrow>
      createPartEvent ps part message = None"
    by (auto simp: createPartEvent_def)
  have pm: "\<And>m parts. length (filter (\<lambda>e. e_type e \<in> {UserMessage, AssistantMessage})
                (partEvents (parser tb) m parts)) = 0"
    subgoal for m parts
      by (induction parts)
        (auto simp: createPartEvent_def partEventOfType_def split: PartType.splits)
    done
  have pp: "\<And>m parts. length (filter (\<lambda>e. e_type e \<in> {ToolCall, Patch, Reasoning, TextEvent})
                (partEvents (parser tb) m parts))
              = length (filter (\<lambda>part. p_type part \<in> {PTool, PPatch, PReasoning, PText}) parts)"
    subgoal for m parts
      by (induction parts)
        (auto simp: createPartEvent_def partEventOfType_def split: PartType.splits)
    done
  have e: "length (filter (\<lambda>e. e_type e \<in> {UserMessage, AssistantMessage})
             (collectEvents (parser tb) msgs)) = length msgs" for msgs
    using pm by (induction msgs) (simp_all add: Let_def createMessageEvent_def)
  have f: "length (filter (\<lambda>e. e_type e \<in> {ToolCall, Patch, Reasoning, TextEvent})
             (collectEvents (parser tb) msgs))
     = sum_list (map (\<lambda>mwp. length (filter (\<lambda>part. p_type part \<in> {PTool, PPatch, PReasoning, PText})
                                       (partsOf mwp))) msgs)" for msgs
    using pp by (induction msgs) (simp_all add: Let_def createMessageEvent_def)
  show ?thesis
    unfolding buildTimeline_def length_filter_sort_key
    using a b c d e f unfolding buildTimeline_def by blast
qed

theorem timeline_events_per_message_and_part_witness:
  "p_type (ex_part ''p4'' PTool (Some 200)) \<in> {PTool, PPatch, PReasoning, PText} \<and>
   map_option timestamp
     (createPartEvent ex_parser (ex_part ''p4'' PTool (Some 200)) (ex_message ''m2'' Assistant 300))
     = Some 200 \<and>
   map_option timestamp
     (createPartEvent ex_parser (ex_part ''p3'' PText None) (ex_message ''m2'' Assistant 300))
     = Some 300 \<and>
   p_type (ex_part ''p5'' PFile (Some 260)) \<in> {PStepStart, PStepFinish, PFile} \<and>
   createPartEvent ex_parser (ex_part ''p5'' PFile (Some 260)) (ex_message ''m2'' Assistant 300)
     = None \<and>
   length (filter (\<lambda>e. e_type e \<in> {UserMessage, AssistantMessage})
             (buildTimeline ex_builder ''ses_1'')) = 2 \<and>
   length (filter (\<lambda>e. e_type e \<in> {ToolCall, Patch, Reasoning, TextEvent})
             (buildTimeline ex_builder ''ses_1'')) = 4"
proof -
  have g: "getMessagesWithParts (reader ex_builder) ''ses_1'' = ex_transcript"
    by (simp add: ex_builder_def ex_reader_def)
  have h1: "p_type (ex_part ''p4'' PTool (Some 200)) \<in> {PTool, PPatch, PReasoning, PText}"
    by (simp add: ex_part_def)
  have h2: "p_type (ex_part ''p5'' PFile (Some 260)) \<in> {PStepStart, PStepFinish, PFile}"
    by (simp add: ex_part_def)
  have t3: "map_option timestamp
     (createPartEvent ex_parser (ex_part ''p3'' PText None) (ex_message ''m2'' Assistant 300))
     = Some 300"
    by (simp add: ex_part_def ex_message_def createPartEvent_def partEventOfType_def
        partTimestamp_def)
  have pt: "p_time (ex_part ''p4'' PTool (Some 200))
      = Some \<lparr> pt_created = 200, pt_completed = None \<rparr>"
    by (simp add: ex_part_def)
  from timeline_events_per_message_and_part
         [of ex_builder "''ses_1''" ex_parser "ex_message ''m2'' Assistant 300" "[]"
             "ex_part ''p4'' PTool (Some 200)"]
       timeline_events_per_message_and_part
         [of ex_builder "''ses_1''" ex_parser "ex_message ''m2'' Assistant 300" "[]"
             "ex_part ''p5'' PFile (Some 260)"]
  show ?thesis
    using h1 h2 t3 pt g
    by (auto simp: ex_transcript_def partsOf_def ex_part_def)
qed

section \<open>Properties of the task classifier\<close>

lemma ex_code_msg:
  "toLowerCase (messageTextOf (UMString ''Create a function in a new file''))
     = ''create a function in a new file''"
  by code_simp

lemma ex_code_tools: "toolsOf [ex_tool_event ''write'' 10] = [''write'']"
  by code_simp

lemma ex_task_tools: "toolsOf [ex_tool_event ''task'' 10] = [''task'']"
  by code_simp

lemma ex_code_noun: "rx_test codeNounPattern ''create a function in a new file''"
  by code_simp

lemma ex_code_create: "rx_test createKeywords ''create a function in a new file''"
  by code_simp

lemma ex_code_file: "rx_test fileKeywords ''create a function in a new file''"
  by code_simp

lemma ex_code_not_modify: "\<not> rx_test modifyKeywords ''create a function in a new file''"
  by code_simp

lemma ex_code_not_tests: "\<not> rx_test testsPattern ''create a function in a new file''"
  by code_simp

lemma ex_code_not_framework:
  "\<not> rx_test testFrameworkPattern ''create a function in a new file''"
  by code_simp

lemma ex_code_not_docs: "\<not> rx_test docsPattern ''create a function in a new file''"
  by code_simp

lemma ex_code_not_review: "\<not> rx_test reviewPattern ''create a function in a new file''"
  by code_simp

text \<open>C5. \<open>detectTaskType\<close> is the first-match evaluation of the ordered rule list
  \<open>taskRules\<close>. A session in which the \<open>task\<close> tool was called is \<open>delegation\<close>
  whatever the message says. A message that names a function, class, component, method,
  module, interface, type or enum is never \<open>create-new-file\<close>, whatever verbs, nouns and
  tools come with it; it is \<open>code\<close> whenever none of the six rules before rule seven
  (delegation, read-only, bash-only, tests, docs, review) fires.\<close>

theorem classifier_first_match:
  fixes userMessage :: UserMessageArg and timeline :: "TimelineEvent list"
  defines "msg \<equiv> toLowerCase (messageTextOf userMessage)"
    and "tools \<equiv> toolsOf timeline"
  shows "detectTaskType userMessage timeline = firstMatch taskRules msg tools \<and>
         (''task'' \<in> set tools \<longrightarrow> detectTaskType userMessage timeline = Delegation) \<and>
         (rx_test codeNounPattern msg \<longrightarrow>
            detectTaskType userMessage timeline \<noteq> CreateNewFile) \<and>
         (rx_test codeNounPattern msg \<and> ''task'' \<notin> set tools \<and> \<not> hasOnlyReadTools tools \<and>
          \<not> (hasBashOnly tools \<and> length tools > 0) \<and>
          \<not> rx_test testsPattern msg \<and> \<not> rx_test testFrameworkPattern msg \<and>
          \<not> rx_test docsPattern msg \<and> \<not> rx_test reviewPattern msg \<longrightarrow>
            detectTaskType userMessage timeline = Code)"
proof -
  have a: "detectTaskType userMessage timeline = firstMatch taskRules msg tools"
    unfolding msg_def tools_def detectTaskType_def taskRules_def Let_def
    by (simp only: firstMatch.simps)
  have b: "''task'' \<in> set tools \<longrightarrow> detectTaskType userMessage timeline = Delegation"
    unfolding msg_def tools_def detectTaskType_def Let_def by simp
  have c: "rx_test codeNounPattern msg \<longrightarrow>
            detectTaskType userMessage timeline \<noteq> CreateNewFile"
    unfolding msg_def tools_def detectTaskType_def Let_def by simp
  have d: "rx_test codeNounPattern msg \<and> ''task'' \<notin> set tools \<and> \<not> hasOnlyReadTools tools \<and>
          \<not> (hasBashOnly tools \<and> length tools > 0) \<and>
          \<not> rx_test testsPattern msg \<and> \<not> rx_test testFrameworkPattern msg \<and>
          \<not> rx_test docsPattern msg \<and> \<not> rx_test reviewPattern msg \<longrightarrow>
            detectTaskType userMessage timeline = Code"
    unfolding msg_def tools_def detectTaskType_def Let_def by simp
  from a b c d show ?thesis by blast
qed

theorem classifier_first_match_witness:
  "''task'' \<in> set (toolsOf [ex_tool_event ''task'' 10]) \<and>
   detectTaskType (UMString ''Create a function in a new file'') [ex_tool_event ''task'' 10]
     = Delegation \<and>
   rx_test codeNounPattern (toLowerCase (messageTextOf (UMString ''Create a function in a new file''))) \<and>
   rx_test createKeywords (toLowerCase (messageTextOf (UMString ''Create a function in a new file''))) \<and>
   rx_test fileKeywords (toLowerCase (messageTextOf (UMString ''Create a function in a new file''))) \<and>
   \<not> rx_test modifyKeywords (toLowerCase (messageTextOf (UMString ''Create a function in a new file''))) \<and>
   ''write'' \<in> set (toolsOf [ex_tool_event ''write'' 10]) \<and>
   detectTaskType (UMString ''Create a function in a new file'') [ex_tool_event ''write'' 10]
     = Code"
proof -
  have ro: "\<not> hasOnlyReadTools [''write'']"
    by (simp add: hasOnlyReadTools_def readTools_def)
  have bo: "\<not> (hasBashOnly [''write''] \<and> length [''write''] > 0)"
    by (simp add: hasBashOnly_def)
  from classifier_first_match[of "UMString ''Create a function in a new file''"
         "[ex_tool_event ''task'' 10]"]
  have "''task'' \<in> set (toolsOf [ex_tool_event ''task'' 10]) \<longrightarrow>
        detectTaskType (UMString ''Create a function in a new file'')
             [ex_tool_event ''task'' 10] = Delegation"
    by blast
  then have 1: "detectTaskType (UMString ''Create a function in a new file'')
             [ex_tool_event ''task'' 10] = Delegation"
    by (simp add: ex_task_tools)
  from classifier_first_match[of "UMString ''Create a function in a new file''"
         "[ex_tool_event ''write'' 10]"]
  have "rx_test codeNounPattern ''create a function in a new file'' \<and>
        ''task'' \<notin> set [''write''] \<and> \<not> hasOnlyReadTools [''write''] \<and>
        \<not> (hasBashOnly [''write''] \<and> length [''write''] > 0) \<and>
        \<not> rx_test testsPattern ''create a function in a new file'' \<and>
        \<not> rx_test testFrameworkPattern ''create a function in a new file'' \<and>
        \<not> rx_test docsPattern ''create a function in a new file'' \<and>
        \<not> rx_test reviewPattern ''create a function in a new file'' \<longrightarrow>
        detectTaskType (UMString ''Create a function in a new file'')
             [ex_tool_event ''write'' 10] = Code"
    unfolding ex_code_msg ex_code_tools by blast
  then have 2: "detectTaskType (UMString ''Create a function in a new file'')
             [ex_tool_event ''write'' 10] = Code"
    using ex_code_noun ex_code_not_tests ex_code_not_framework ex_code_not_docs
      ex_code_not_review ro bo
    by simp
  show ?thesis
    unfolding ex_code_msg ex_code_tools ex_task_tools
    using 1 2 ex_code_noun ex_code_create ex_code_file ex_code_not_modify
    by simp
qed

subsection \<open>Applicability lookup\<close>

lemma applicabilityMatrix_names:
  "map fst applicabilityMatrix =
     [''approval-gate'', ''context-loading'', ''execution-balance'', ''tool-usage'',
      ''delegation'', ''stop-on-failure'', ''behavior'']"
  by (simp add: applicabilityMatrix_def)

text \<open>C10. The lookup defaults to applicable. An evaluator name that is none of the
  seven rows of the table gets \<open>{applicable: true}\<close> with no reason, for every task type;
  and in the lookup over any table, a row that exists but has no entry for the task type
  gets the same. (Each of the seven rows of the table in the source lists all twelve task
  types, so there the second default is never taken.)\<close>

theorem applicability_defaults:
  "map fst applicabilityMatrix =
     [''approval-gate'', ''context-loading'', ''execution-balance'', ''tool-usage'',
      ''delegation'', ''stop-on-failure'', ''behavior''] \<and>
   (evaluatorName \<notin> set (map fst applicabilityMatrix) \<longrightarrow>
      getEvaluatorApplicability evaluatorName taskType
        = \<lparr> applicable = True, reason = None \<rparr>) \<and>
   (map_of matrix evaluatorName = Some row \<and> map_of row taskType = None \<longrightarrow>
      lookupApplicability matrix evaluatorName taskType
        = \<lparr> applicable = True, reason = None \<rparr>)"
proof -
  have "evaluatorName \<notin> set (map fst applicabilityMatrix) \<longrightarrow>
          map_of applicabilityMatrix evaluatorName = None"
    by (simp add: map_of_eq_None_iff)
  then have a: "evaluatorName \<notin> set (map fst applicabilityMatrix) \<longrightarrow>
      getEvaluatorApplicability evaluatorName taskType
        = \<lparr> applicable = True, reason = None \<rparr>"
    by (simp add: getEvaluatorApplicability_def lookupApplicability_def)
  have b: "map_of matrix evaluatorName = Some row \<and> map_of row taskType = None \<longrightarrow>
      lookupApplicability matrix evaluatorName taskType
        = \<lparr> applicable = True, reason = None \<rparr>"
    by (simp add: lookupApplicability_def)
  from applicabilityMatrix_names a b show ?thesis by blast
qed

theorem applicability_defaults_witness:
  "''report-first'' \<notin> set (map fst applicabilityMatrix) \<and>
   getEvaluatorApplicability ''report-first'' Conversational
     = \<lparr> applicable = True, reason = None \<rparr> \<and>
   map_of ex_small_matrix ''approval-gate''
     = Some [(ReadOnly, no ''Read-only operations do not require approval'')] \<and>
   map_of [(ReadOnly, no ''Read-only operations do not require approval'')] Code = None \<and>
   lookupApplicability ex_small_matrix ''approval-gate'' Code
     = \<lparr> applicable = True, reason = None \<rparr>"
proof -
  have h1: "''report-first'' \<notin> set (map fst applicabilityMatrix)"
    unfolding applicabilityMatrix_names by simp
  have h2: "map_of ex_small_matrix ''approval-gate''
     = Some [(ReadOnly, no ''Read-only operations do not require approval'')]"
    by (simp add: ex_small_matrix_def)
  have h3: "map_of [(ReadOnly, no ''Read-only operations do not require approval'')] Code = None"
    by simp
  from applicability_defaults[where evaluatorName = "''approval-gate''" and taskType = Code
         and matrix = ex_small_matrix
         and row = "[(ReadOnly, no ''Read-only operations do not require approval'')]"]
  have "lookupApplicability ex_small_matrix ''approval-gate'' Code
     = \<lparr> applicable = True, reason = None \<rparr>" using h2 h3 by blast
  moreover
  from applicability_defaults[where evaluatorName = "''report-first''"
         and taskType = Conversational]
  have "getEvaluatorApplicability ''report-first'' Conversational
     = \<lparr> applicable = True, reason = None \<rparr>" using h1 by blast
  ultimately show ?thesis using h1 h2 h3 by blast
qed

section \<open>Properties of the declared-behavior evaluator\<close>

lemma requiredLoop_fst:
  "fst (requiredLoop clock toolsUsed uniqueTools required acc) =
     fst acc @ filter (\<lambda>t. t \<notin> set toolsUsed) required"
  by (induction required arbitrary: acc) simp_all

lemma requiredLoop_kinds:
  "map (\<lambda>v. (v_type v, v_severity v)) (snd (requiredLoop clock toolsUsed uniqueTools required acc)) =
     map (\<lambda>v. (v_type v, v_severity v)) (snd acc)
       @ map (\<lambda>t. (''missing-required-tool'', SevError)) (filter (\<lambda>t. t \<notin> set toolsUsed) required)"
  by (induction required arbitrary: acc)
     (simp_all add: pushViolation_def createViolation_def)

lemma forbiddenLoop_fst:
  "fst (forbiddenLoop clock toolsUsed uniqueTools forbidden acc) =
     fst acc @ filter (\<lambda>t. t \<in> set toolsUsed) forbidden"
  by (induction forbidden arbitrary: acc) simp_all

lemma forbiddenLoop_kinds:
  "map (\<lambda>v. (v_type v, v_severity v)) (snd (forbiddenLoop clock toolsUsed uniqueTools forbidden acc)) =
     map (\<lambda>v. (v_type v, v_severity v)) (snd acc)
       @ map (\<lambda>t. (''forbidden-tool-used'', SevError)) (filter (\<lambda>t. t \<in> set toolsUsed) forbidden)"
  by (induction forbidden arbitrary: acc)
     (simp_all add: pushViolation_def createViolation_def)

lemma checkMustUseTools_names:
  "map c_name (fst (checkMustUseTools b base clock toolsUsed uniqueTools st)) =
     map c_name (fst st)
       @ (case mustUseTools b of Some (t # ts) \<Rightarrow> [''must-use-tools''] | _ \<Rightarrow> [])"
  by (simp add: checkMustUseTools_def Let_def split: option.splits list.splits)

lemma checkMustUseTools_kinds:
  "map (\<lambda>v. (v_type v, v_severity v)) (snd (checkMustUseTools b base clock toolsUsed uniqueTools st)) =
     map (\<lambda>v. (v_type v, v_severity v)) (snd st)
       @ (case mustUseTools b of
            Some required \<Rightarrow>
              map (\<lambda>t. (''missing-required-tool'', SevError))
                (filter (\<lambda>t. t \<notin> set toolsUsed) required)
          | None \<Rightarrow> [])"
  by (simp add: checkMustUseTools_def Let_def requiredLoop_kinds split: option.splits)

lemma checkMustUseAnyOf_names:
  "map c_name (fst (checkMustUseAnyOf b base clock toolsUsed uniqueTools st)) =
     map c_name (fst st)
       @ (case mustUseAnyOf b of Some (s # ss) \<Rightarrow> [''must-use-any-of''] | _ \<Rightarrow> [])"
  by (simp add: checkMustUseAnyOf_def Let_def split: option.splits list.splits)

lemma checkMustUseAnyOf_kinds:
  "map (\<lambda>v. (v_type v, v_severity v)) (snd (checkMustUseAnyOf b base clock toolsUsed uniqueTools st)) =
     map (\<lambda>v. (v_type v, v_severity v)) (snd st)
       @ (case mustUseAnyOf b of
            Some (s # ss) \<Rightarrow>
              if filter (\<lambda>toolSet. filter (\<lambda>tool. tool \<notin> set toolsUsed) toolSet = []) (s # ss) = []
              then [(''missing-required-tool-set'', SevError)] else []
          | _ \<Rightarrow> [])"
  by (simp add: checkMustUseAnyOf_def Let_def pushViolation_def createViolation_def
      split: option.splits list.splits)

lemma checkMustNotUseTools_names:
  "map c_name (fst (checkMustNotUseTools b base clock toolsUsed uniqueTools st)) =
     map c_name (fst st)
       @ (case mustNotUseTools b of Some (t # ts) \<Rightarrow> [''must-not-use-tools''] | _ \<Rightarrow> [])"
  by (simp add: checkMustNotUseTools_def Let_def split: option.splits list.splits)

lemma checkMustNotUseTools_kinds:
  "map (\<lambda>v. (v_type v, v_severity v)) (snd (checkMustNotUseTools b base clock toolsUsed uniqueTools st)) =
     map (\<lambda>v. (v_type v, v_severity v)) (snd st)
       @ (case mustNotUseTools b of
            Some forbidden \<Rightarrow>
              map (\<lambda>t. (''forbidden-tool-used'', SevError))
                (filter (\<lambda>t. t \<in> set toolsUsed) forbidden)
          | None \<Rightarrow> [])"
  by (simp add: checkMustNotUseTools_def Let_def forbiddenLoop_kinds split: option.splits)

lemma checkMinToolCalls_names:
  "map c_name (fst (checkMinToolCalls b base clock toolCalls st)) =
     map c_name (fst st)
       @ (case minToolCalls b of Some n \<Rightarrow> [''min-tool-calls''] | None \<Rightarrow> [])"
  by (simp add: checkMinToolCalls_def Let_def split: option.splits)

lemma checkMinToolCalls_kinds:
  "map (\<lambda>v. (v_type v, v_severity v)) (snd (checkMinToolCalls b base clock toolCalls st)) =
     map (\<lambda>v. (v_type v, v_severity v)) (snd st)
       @ (case minToolCalls b of
            Some n \<Rightarrow> if int (length toolCalls) < n
                      then [(''insufficient-tool-calls'', SevError)] else []
          | None \<Rightarrow> [])"
  by (simp add: checkMinToolCalls_def Let_def pushViolation_def createViolation_def
      split: option.splits)

lemma checkMaxToolCalls_names:
  "map c_name (fst (checkMaxToolCalls b base clock toolCalls st)) =
     map c_name (fst st)
       @ (case maxToolCalls b of Some n \<Rightarrow> [''max-tool-calls''] | None \<Rightarrow> [])"
  by (simp add: checkMaxToolCalls_def Let_def split: option.splits)

lemma checkMaxToolCalls_kinds:
  "map (\<lambda>v. (v_type v, v_severity v)) (snd (checkMaxToolCalls b base clock toolCalls st)) =
     map (\<lambda>v. (v_type v, v_severity v)) (snd st)
       @ (case maxToolCalls b of
            Some n \<Rightarrow> if n < int (length toolCalls)
                      then [(''excessive-tool-calls'', SevWarning)] else []
          | None \<Rightarrow> [])"
  by (simp add: checkMaxToolCalls_def Let_def pushViolation_def createViolation_def
      split: option.splits)

lemma checkRequiresApproval_names:
  "map c_name (fst (checkRequiresApproval b base clock timeline st)) =
     map c_name (fst st)
       @ (if requiresApproval b = Some True then [''requires-approval''] else [])"
  by (simp add: checkRequiresApproval_def Let_def)

lemma checkRequiresApproval_kinds:
  "map (\<lambda>v. (v_type v, v_severity v)) (snd (checkRequiresApproval b base clock timeline st)) =
     map (\<lambda>v. (v_type v, v_severity v)) (snd st)
       @ (if requiresApproval b = Some True \<and>
             \<not> list_ex (\<lambda>msg. containsApprovalLanguage base
                                (case truthy_string (data_text (e_data msg)) of
                                   Some text \<Rightarrow> text | None \<Rightarrow> []))
                  (getAssistantMessages base timeline)
          then [(''missing-approval-request'', SevError)] else [])"
  by (simp add: checkRequiresApproval_def Let_def pushViolation_def createViolation_def)

lemma checkRequiresContext_names:
  "map c_name (fst (checkRequiresContext b base clock timeline st)) =
     map c_name (fst st)
       @ (if requiresContext b = Some True then [''requires-context''] else [])"
  by (simp add: checkRequiresContext_def Let_def)

lemma checkRequiresContext_kinds:
  "map (\<lambda>v. (v_type v, v_severity v)) (snd (checkRequiresContext b base clock timeline st)) =
     map (\<lambda>v. (v_type v, v_severity v)) (snd st)
       @ (if requiresContext b = Some True \<and>
             filter (\<lambda>rt. list_ex (\<lambda>pattern. rx_test pattern (readFilePath rt)) contextPatterns)
               (getReadTools base timeline) = []
          then [(''missing-context-loading'', SevError)] else [])"
  by (simp add: checkRequiresContext_def Let_def pushViolation_def createViolation_def)

lemma checkShouldDelegate_names:
  "map c_name (fst (checkShouldDelegate b base clock timeline st)) =
     map c_name (fst st)
       @ (if shouldDelegate b = Some True then [''should-delegate''] else [])"
  by (simp add: checkShouldDelegate_def Let_def)

lemma checkShouldDelegate_kinds:
  "map (\<lambda>v. (v_type v, v_severity v)) (snd (checkShouldDelegate b base clock timeline st)) =
     map (\<lambda>v. (v_type v, v_severity v)) (snd st)
       @ (if shouldDelegate b = Some True \<and> getToolCallsByName base timeline ''task'' = []
          then [(''missing-delegation'', SevWarning)] else [])"
  by (simp add: checkShouldDelegate_def Let_def pushViolation_def createViolation_def)

lemma evaluate_violations:
  "r_violations (evaluate b base clock timeline sessionInfo) = snd (runChecks b base clock timeline)"
  by (simp add: evaluate_def buildResult_def Let_def)

lemma ex_tool_calls:
  "getToolCalls ex_base ex_session_timeline =
     [ex_tool_event ''write'' 3, ex_tool_event ''bash'' 4, ex_tool_event ''bash'' 5]"
  by (simp add: ex_base_def ex_session_timeline_def ex_text_event_def ex_tool_event_def)

lemma excessive_tool_calls_kinds:
  "map (\<lambda>v. (v_type v, v_severity v))
     (r_violations (evaluate ex_max_behavior ex_base clock ex_session_timeline ex_session))
     = [(''excessive-tool-calls'', SevWarning)]"
  unfolding evaluate_violations runChecks_def Let_def checkMustUseTools_kinds
    checkMustUseAnyOf_kinds checkMustNotUseTools_kinds checkMinToolCalls_kinds
    checkMaxToolCalls_kinds checkRequiresApproval_kinds checkRequiresContext_kinds
    checkShouldDelegate_kinds ex_tool_calls
  by (simp add: ex_max_behavior_def)

text \<open>C8, as the claim states it, fails: with \<open>maxToolCalls = 2\<close> and three tool calls
  the constraint is unmet, and the one violation, \<open>excessive-tool-calls\<close>, has severity
  warning, not error.\<close>

theorem excessive_tool_calls_counterexample:
  "maxToolCalls ex_max_behavior = Some 2 \<and>
   length (getToolCalls ex_base ex_session_timeline) = 3 \<and>
   map (\<lambda>v. (v_type v, v_severity v))
     (r_violations (evaluate ex_max_behavior ex_base (\<lambda>k. 0) ex_session_timeline ex_session))
     = [(''excessive-tool-calls'', SevWarning)]"
  using excessive_tool_calls_kinds[of "\<lambda>k. 0"]
  by (simp add: ex_max_behavior_def ex_tool_calls)

text \<open>C8, amended. Every declared constraint adds exactly one check, in the order of the
  source (a tool list counts as declared when it is not empty, a flag when it is true).
  Every unmet constraint adds its violation, named by convention: one
  \<open>missing-required-tool\<close> for each required tool not used and one
  \<open>forbidden-tool-used\<close> for each forbidden tool used, one \<open>missing-required-tool-set\<close>,
  \<open>insufficient-tool-calls\<close>, \<open>missing-approval-request\<close> and
  \<open>missing-context-loading\<close>, all of severity error; and one \<open>excessive-tool-calls\<close> and
  one \<open>missing-delegation\<close>, both of severity warning. The result carries no other
  violation.\<close>

theorem behavior_checks_and_violations:
  fixes b :: BehaviorExpectation and base :: BaseEvaluator and timeline :: "TimelineEvent list"
  defines "toolCalls \<equiv> getToolCalls base timeline"
    and "toolsUsed \<equiv> toolsUsedIn base timeline"
  shows
  "map c_name (fst (runChecks b base clock timeline)) =
     (case mustUseTools b of Some (t # ts) \<Rightarrow> [''must-use-tools''] | _ \<Rightarrow> [])
     @ (case mustUseAnyOf b of Some (s # ss) \<Rightarrow> [''must-use-any-of''] | _ \<Rightarrow> [])
     @ (case mustNotUseTools b of Some (t # ts) \<Rightarrow> [''must-not-use-tools''] | _ \<Rightarrow> [])
     @ (case minToolCalls b of Some n \<Rightarrow> [''min-tool-calls''] | None \<Rightarrow> [])
     @ (case maxToolCalls b of Some n \<Rightarrow> [''max-tool-calls''] | None \<Rightarrow> [])
     @ (if requiresApproval b = Some True then [''requires-approval''] else [])
     @ (if requiresContext b = Some True then [''requires-context''] else [])
     @ (if shouldDelegate b = Some True then [''should-delegate''] else []) \<and>
   map (\<lambda>v. (v_type v, v_severity v))
       (r_violations (evaluate b base clock timeline sessionInfo)) =
     (case mustUseTools b of
        Some required \<Rightarrow>
          map (\<lambda>t. (''missing-required-tool'', SevError))
            (filter (\<lambda>t. t \<notin> set toolsUsed) required)
      | None \<Rightarrow> [])
     @ (case mustUseAnyOf b of
          Some (s # ss) \<Rightarrow>
            if filter (\<lambda>toolSet. filter (\<lambda>tool. tool \<notin> set toolsUsed) toolSet = []) (s # ss) = []
            then [(''missing-required-tool-set'', SevError)] else []
        | _ \<Rightarrow> [])
     @ (case mustNotUseTools b of
          Some forbidden \<Rightarrow>
            map (\<lambda>t. (''forbidden-tool-used'', SevError))
              (filter (\<lambda>t. t \<in> set toolsUsed) forbidden)
        | None \<Rightarrow> [])
     @ (case minToolCalls b of
          Some n \<Rightarrow> if int (length toolCalls) < n
                    then [(''insufficient-tool-calls'', SevError)] else []
        | None \<Rightarrow> [])
     @ (case maxToolCalls b of
          Some n \<Rightarrow> if n < int (length toolCalls)
                    then [(''excessive-tool-calls'', SevWarning)] else []
        | None \<Rightarrow> [])
     @ (if requiresApproval b = Some True \<and>
           \<not> list_ex (\<lambda>msg. containsApprovalLanguage base
                              (case truthy_string (data_text (e_data msg)) of
                                 Some text \<Rightarrow> text | None \<Rightarrow> []))
                (getAssistantMessages base timeline)
        then [(''missing-approval-request'', SevError)] else [])
     @ (if requiresContext b = Some True \<and>
           filter (\<lambda>rt. list_ex (\<lambda>pattern. rx_test pattern (readFilePath rt)) contextPatterns)
             (getReadTools base timeline) = []
        then [(''missing-context-loading'', SevError)] else [])
     @ (if shouldDelegate b = Some True \<and> getToolCallsByName base timeline ''task'' = []
        then [(''missing-delegation'', SevWarning)] else [])"
  unfolding evaluate_violations runChecks_def Let_def toolCalls_def toolsUsed_def
    checkMustUseTools_kinds checkMustUseAnyOf_kinds checkMustNotUseTools_kinds
    checkMinToolCalls_kinds checkMaxToolCalls_kinds checkRequiresApproval_kinds
    checkRequiresContext_kinds checkShouldDelegate_kinds
    checkMustUseTools_names checkMustUseAnyOf_names checkMustNotUseTools_names
    checkMinToolCalls_names checkMaxToolCalls_names checkRequiresApproval_names
    checkRequiresContext_names checkShouldDelegate_names
  by simp
lemma ex_tools_used:
  "toolsUsedIn ex_base ex_session_timeline = [''write'', ''bash'', ''bash'']"
  by (simp add: toolsUsedIn_def ex_tool_calls List.map_filter_simps toolNameOf_def
      ex_tool_event_def ex_part_def data_tool_def truthy_string_def)

lemma ex_no_approval:
  "\<not> list_ex (\<lambda>msg. containsApprovalLanguage ex_base
                      (case truthy_string (data_text (e_data msg)) of
                         Some text \<Rightarrow> text | None \<Rightarrow> []))
        (getAssistantMessages ex_base ex_session_timeline)"
  by code_simp

lemma ex_no_reads: "getReadTools ex_base ex_session_timeline = []"
  by code_simp

lemma ex_no_task: "getToolCallsByName ex_base ex_session_timeline ''task'' = []"
  by code_simp

theorem behavior_checks_and_violations_witness:
  "map c_name (fst (runChecks ex_behavior ex_base (\<lambda>k. 0) ex_session_timeline)) =
     [''must-use-tools'', ''must-not-use-tools'', ''min-tool-calls'', ''max-tool-calls'',
      ''requires-approval'', ''requires-context'', ''should-delegate''] \<and>
   map (\<lambda>v. (v_type v, v_severity v))
       (r_violations (evaluate ex_behavior ex_base (\<lambda>k. 0) ex_session_timeline ex_session)) =
     [(''missing-required-tool'', SevError), (''forbidden-tool-used'', SevError),
      (''excessive-tool-calls'', SevWarning), (''missing-approval-request'', SevError),
      (''missing-context-loading'', SevError), (''missing-delegation'', SevWarning)]"
  using behavior_checks_and_violations
          [of ex_behavior ex_base "\<lambda>k. 0" ex_session_timeline ex_session]
        ex_no_approval
  unfolding ex_tools_used ex_tool_calls ex_no_reads ex_no_task
  by (simp add: ex_behavior_def)

subsection \<open>Determinism up to the clock\<close>


























section \<open>Properties of the applicability gate\<close>

lemma ex_conv_msg:
  "toLowerCase (messageTextOf (firstUserMessage ex_conversation))
     = ''what is the capital of france?''"
  by code_simp

lemma ex_conv_tools: "toolsOf ex_conversation = []"
  by code_simp

lemma ex_conv_not_testsPattern: "\<not> rx_test testsPattern ''what is the capital of france?''"
  by code_simp

lemma ex_conv_not_testFrameworkPattern: "\<not> rx_test testFrameworkPattern ''what is the capital of france?''"
  by code_simp

lemma ex_conv_not_docsPattern: "\<not> rx_test docsPattern ''what is the capital of france?''"
  by code_simp

lemma ex_conv_not_reviewPattern: "\<not> rx_test reviewPattern ''what is the capital of france?''"
  by code_simp

lemma ex_conv_not_codeNounPattern: "\<not> rx_test codeNounPattern ''what is the capital of france?''"
  by code_simp

lemma ex_conv_not_createKeywords: "\<not> rx_test createKeywords ''what is the capital of france?''"
  by code_simp

lemma ex_conv_not_genericCodePattern: "\<not> rx_test genericCodePattern ''what is the capital of france?''"
  by code_simp

lemma ex_conv_not_modifyKeywords: "\<not> rx_test modifyKeywords ''what is the capital of france?''"
  by code_simp

lemma ex_conv_not_deletePattern: "\<not> rx_test deletePattern ''what is the capital of france?''"
  by code_simp

lemma ex_conversation_task_type:
  "detectTaskType (firstUserMessage ex_conversation) ex_conversation = Conversational"
  unfolding detectTaskType_def Let_def ex_conv_msg ex_conv_tools
  by (simp add: hasOnlyReadTools_def hasBashOnly_def ex_conv_not_testsPattern ex_conv_not_testFrameworkPattern ex_conv_not_docsPattern ex_conv_not_reviewPattern ex_conv_not_codeNounPattern ex_conv_not_createKeywords ex_conv_not_genericCodePattern ex_conv_not_modifyKeywords ex_conv_not_deletePattern)

lemma inapplicable_pairs:
  "concat (map (\<lambda>(n, row). map (\<lambda>(t, a). (n, t)) (filter (\<lambda>(t, a). \<not> applicable a) row))
            applicabilityMatrix) =
     [(''approval-gate'', ReadOnly), (''approval-gate'', Conversational),
      (''context-loading'', CreateNewFile), (''context-loading'', DeleteFile),
      (''context-loading'', ReadOnly), (''context-loading'', BashOnly),
      (''context-loading'', Conversational),
      (''execution-balance'', CreateNewFile), (''execution-balance'', DeleteFile),
      (''execution-balance'', ReadOnly), (''execution-balance'', BashOnly),
      (''execution-balance'', Delegation), (''execution-balance'', Conversational),
      (''tool-usage'', Conversational),
      (''delegation'', CreateNewFile), (''delegation'', ModifyExistingFile),
      (''delegation'', DeleteFile), (''delegation'', ReadOnly), (''delegation'', BashOnly),
      (''delegation'', Conversational), (''delegation'', Code), (''delegation'', Docs),
      (''delegation'', Tests),
      (''stop-on-failure'', Conversational)]"
  by (simp add: applicabilityMatrix_def yes_def no_def)

text \<open>C6. The pairs marked inapplicable in the matrix are the twenty-four listed here.
  When the pair of the evaluator's name and the session's task type is marked
  inapplicable, the gated evaluator returns a result, with no violations, \<open>passed = true\<close>
  and \<open>metadata.skipped = true\<close>, whatever its rule checks would have returned.\<close>

theorem inapplicable_evaluator_skips:
  "concat (map (\<lambda>(n, row). map (\<lambda>(t, a). (n, t)) (filter (\<lambda>(t, a). \<not> applicable a) row))
            applicabilityMatrix) =
     [(''approval-gate'', ReadOnly), (''approval-gate'', Conversational),
      (''context-loading'', CreateNewFile), (''context-loading'', DeleteFile),
      (''context-loading'', ReadOnly), (''context-loading'', BashOnly),
      (''context-loading'', Conversational),
      (''execution-balance'', CreateNewFile), (''execution-balance'', DeleteFile),
      (''execution-balance'', ReadOnly), (''execution-balance'', BashOnly),
      (''execution-balance'', Delegation), (''execution-balance'', Conversational),
      (''tool-usage'', Conversational),
      (''delegation'', CreateNewFile), (''delegation'', ModifyExistingFile),
      (''delegation'', DeleteFile), (''delegation'', ReadOnly), (''delegation'', BashOnly),
      (''delegation'', Conversational), (''delegation'', Code), (''delegation'', Docs),
      (''delegation'', Tests),
      (''stop-on-failure'', Conversational)] \<and>
   (\<not> applicable (getEvaluatorApplicability evaluatorName
                     (detectTaskType (firstUserMessage timeline) timeline)) \<longrightarrow>
      r_violations (gatedEvaluate evaluatorName ruleChecks timeline sessionInfo) = [] \<and>
      r_passed (gatedEvaluate evaluatorName ruleChecks timeline sessionInfo) = True \<and>
      r_score (gatedEvaluate evaluatorName ruleChecks timeline sessionInfo) = 100 \<and>
      map_of (r_metadata (gatedEvaluate evaluatorName ruleChecks timeline sessionInfo)) ''skipped''
        = Some (JBool True))"
proof -
  have "\<not> applicable (getEvaluatorApplicability evaluatorName
                     (detectTaskType (firstUserMessage timeline) timeline)) \<longrightarrow>
      r_violations (gatedEvaluate evaluatorName ruleChecks timeline sessionInfo) = [] \<and>
      r_passed (gatedEvaluate evaluatorName ruleChecks timeline sessionInfo) = True \<and>
      r_score (gatedEvaluate evaluatorName ruleChecks timeline sessionInfo) = 100 \<and>
      map_of (r_metadata (gatedEvaluate evaluatorName ruleChecks timeline sessionInfo)) ''skipped''
        = Some (JBool True)"
    by (simp add: gatedEvaluate_def Let_def skippedResult_def)
  with inapplicable_pairs show ?thesis by (rule conjI)
qed

theorem inapplicable_evaluator_skips_witness:
  "\<not> applicable (getEvaluatorApplicability ''context-loading''
                    (detectTaskType (firstUserMessage ex_conversation) ex_conversation)) \<and>
   r_violations (gatedEvaluate ''context-loading'' ex_failing_checks ex_conversation ex_session) = [] \<and>
   r_passed (gatedEvaluate ''context-loading'' ex_failing_checks ex_conversation ex_session) = True \<and>
   map_of (r_metadata (gatedEvaluate ''context-loading'' ex_failing_checks ex_conversation ex_session))
       ''skipped'' = Some (JBool True) \<and>
   r_violations (ex_failing_checks ex_conversation ex_session) \<noteq> []"
proof -
  have h: "\<not> applicable (getEvaluatorApplicability ''context-loading''
                    (detectTaskType (firstUserMessage ex_conversation) ex_conversation))"
    unfolding ex_conversation_task_type
    by (simp add: getEvaluatorApplicability_def lookupApplicability_def applicabilityMatrix_def
        no_def)
  from inapplicable_evaluator_skips
         [of "''context-loading''" ex_conversation ex_failing_checks ex_session]
  have "\<not> applicable (getEvaluatorApplicability ''context-loading''
                    (detectTaskType (firstUserMessage ex_conversation) ex_conversation)) \<longrightarrow>
      r_violations (gatedEvaluate ''context-loading'' ex_failing_checks ex_conversation ex_session) = [] \<and>
      r_passed (gatedEvaluate ''context-loading'' ex_failing_checks ex_conversation ex_session) = True \<and>
      r_score (gatedEvaluate ''context-loading'' ex_failing_checks ex_conversation ex_session) = 100 \<and>
      map_of (r_metadata (gatedEvaluate ''context-loading'' ex_failing_checks ex_conversation ex_session))
        ''skipped'' = Some (JBool True)"
    by (rule conjunct2)
  with h show ?thesis
    by (simp add: ex_failing_checks_def)
qed

section \<open>Determinism of the evaluators\<close>







end
